(* ===== verification/Prelude.thy ===== *)
theory Prelude
  imports Complex_Main "HOL-Library.Multiset"
begin

text \<open>
  Shared vocabulary of the development: the names of the model's types, the
  collections of facts the component theories feed to the simplifier, and the
  generic lemmas on lists, multisets and strings they share.
\<close>

section \<open>Types of the model\<close>

text \<open>
  Go's \<open>float64\<close> is named \<open>float64\<close> and computed on exact reals in the
  component theories: every value the program reads (a decimal JSON number, the
  literal \<open>273.15\<close>, a power of ten) is a rational number. Theory \<open>Float64\<close>
  models the same arithmetic with binary64 rounding and relates the two. Go
  strings are byte sequences, as Isabelle's \<open>string\<close> is.
\<close>

type_synonym float64 = real

text \<open>A coordinate pair \<open>[2]string\<close> of \<open>main\<close>: latitude, longitude.\<close>

type_synonym coord = "string \<times> string"

text \<open>The last element of a list, or a default for the empty list.\<close>

definition last_or :: "'a \<Rightarrow> 'a list \<Rightarrow> 'a" where
  "last_or d xs = (if xs = [] then d else last xs)"

named_theorems go_eval
  \<open>unfoldings of the model's operations, used to evaluate them on concrete inputs\<close>

section \<open>Lists and multisets\<close>

lemma last_or_simps [simp]:
  "last_or d [] = d"
  "last_or d (xs @ ys) = last_or (last_or d xs) ys"
  "last_or d (x # xs) = last_or x xs"
  by (simp_all add: last_or_def)

text \<open>
  Go's \<open>range\<close> over a map visits the entries in an unspecified order. A result
  that does not depend on that order is stated through multisets; the lemma below
  is the step every such statement needs.
\<close>

lemma mset_concat_map:
  "mset (concat (map f xs)) = (\<Sum>x\<in>#mset xs. mset (f x))"
  by (induction xs) auto

lemma mset_concat_map_perm:
  "mset xs = mset ys \<Longrightarrow> mset (concat (map f xs)) = mset (concat (map f ys))"
  by (simp add: mset_concat_map)

text \<open>Counting the lines of a loop's output, visit by visit.\<close>

lemma length_filter_concat_map:
  "length (filter P (concat (map f xs))) = (\<Sum>x\<leftarrow>xs. length (filter P (f x)))"
  by (induction xs) simp_all

lemma sum_list_indicator:
  "(\<Sum>x\<leftarrow>xs. if Q x then (c :: nat) else 0) = c * length (filter Q xs)"
  by (induction xs) simp_all

lemma length_filter_mset_eq:
  "mset xs = mset ys \<Longrightarrow> length (filter P xs) = length (filter P ys)"
  by (metis mset_filter size_mset)

lemma length_filter_comp:
  "length (filter (\<lambda>x. Q (f x)) xs) = length (filter Q (map f xs))"
  by (induction xs) simp_all

end
