(* ===== verification/Round.thy ===== *)
theory Round
  imports Prelude
begin

text \<open>
  The helper \<open>round(val, decimals, mode)\<close> of \<open>src/main.go\<close> (lines 83--94)
  and the three functions of Go's \<open>math\<close> package it calls. \<open>math.Round\<close>,
  \<open>math.Ceil\<close> and \<open>math.Floor\<close> are library code: they are modelled from their
  documented contract (nearest integer with ties away from zero; least integer
  above; greatest integer below), and \<open>math_round\<close> is proved to meet that
  contract, which Go's implementation meets exactly on every \<open>float64\<close>. Here
  \<open>val*mult\<close> and the quotient are exact reals; theory \<open>Float64\<close> rounds them
  to binary64 as Go does, and its \<open>round64_refines_round_go\<close> states when the two
  agree.
\<close>

section \<open>Go's math package\<close>

text \<open>\<open>math.Pow(10, float64(decimals))\<close>: a power of ten, below one for negative exponents.\<close>

definition go_pow10 :: "int \<Rightarrow> float64" where
  "go_pow10 d = (if 0 \<le> d then 10 ^ nat d else 1 / 10 ^ nat (- d))"

text \<open>\<open>math.Round\<close>: the nearest integer, halves rounded away from zero.\<close>

definition math_round :: "float64 \<Rightarrow> float64" where
  "math_round x = (if x < 0 then - of_int \<lfloor>- x + 1 / 2\<rfloor> else of_int \<lfloor>x + 1 / 2\<rfloor>)"

definition math_ceil :: "float64 \<Rightarrow> float64" where
  "math_ceil x = of_int \<lceil>x\<rceil>"

definition math_floor :: "float64 \<Rightarrow> float64" where
  "math_floor x = of_int \<lfloor>x\<rfloor>"

section \<open>The rounding helper\<close>

text \<open>
  \<^verbatim>\<open>
  func round(val float64, decimals int, mode string) float64 {
      mult := math.Pow(10, float64(decimals))
      switch mode {
      case "ceil":  return math.Ceil(val*mult) / mult
      case "floor": return math.Floor(val*mult) / mult
      default:      return math.Round(val*mult) / mult
      }
  }
  \<close>
  The name \<open>round\<close> is taken by HOL's own rounding function, hence \<open>round_go\<close>.
\<close>

definition round_go :: "float64 \<Rightarrow> int \<Rightarrow> string \<Rightarrow> float64" where
  "round_go val decimals mode =
     (let mult = go_pow10 decimals in
      if mode = ''ceil'' then math_ceil (val * mult) / mult
      else if mode = ''floor'' then math_floor (val * mult) / mult
      else math_round (val * mult) / mult)"

text \<open>The contract of \<open>math.Round\<close>, as its documentation states it.\<close>

definition nearest_half_away :: "float64 \<Rightarrow> float64 \<Rightarrow> bool" where
  "nearest_half_away x r \<longleftrightarrow>
     r \<in> \<int> \<and> \<bar>x - r\<bar> \<le> 1 / 2 \<and> (\<bar>x - r\<bar> = 1 / 2 \<longrightarrow> \<bar>x\<bar> < \<bar>r\<bar>)"

declare round_go_def [go_eval] go_pow10_def [go_eval] math_round_def [go_eval]
  math_ceil_def [go_eval] math_floor_def [go_eval]

section \<open>Facts about the math functions\<close>

lemma go_pow10_pos [simp]: "0 < go_pow10 d"
  by (simp add: go_pow10_def)

lemma math_round_Ints [simp]: "math_round x \<in> \<int>"
  by (simp add: math_round_def)

text \<open>The two branches of \<open>math_round\<close>, each with the bounds of its floor.\<close>

lemma math_round_cases:
  obtains "0 \<le> x" "math_round x = of_int \<lfloor>x + 1 / 2\<rfloor>"
    "x - 1 / 2 < math_round x" "math_round x \<le> x + 1 / 2"
  | "x < 0" "math_round x = - of_int \<lfloor>- x + 1 / 2\<rfloor>"
    "x - 1 / 2 \<le> math_round x" "math_round x < x + 1 / 2"
proof (cases "x < 0")
  case True
  then have r: "math_round x = - of_int \<lfloor>- x + 1 / 2\<rfloor>"
    by (simp only: math_round_def if_True)
  have "of_int \<lfloor>- x + 1 / 2\<rfloor> \<le> - x + 1 / 2"
    and "- x + 1 / 2 < of_int \<lfloor>- x + 1 / 2\<rfloor> + 1"
    by linarith+
  with True r show ?thesis by (intro that(2)) linarith+
next
  case False
  then have r: "math_round x = of_int \<lfloor>x + 1 / 2\<rfloor>"
    by (simp only: math_round_def if_False)
  have "of_int \<lfloor>x + 1 / 2\<rfloor> \<le> x + 1 / 2"
    and "x + 1 / 2 < of_int \<lfloor>x + 1 / 2\<rfloor> + 1"
    by linarith+
  with False r show ?thesis by (intro that(1)) linarith+
qed

lemma math_round_near: "x - 1 / 2 \<le> math_round x" "math_round x \<le> x + 1 / 2"
  by (cases x rule: math_round_cases; simp)+

lemma math_round_dist: "\<bar>math_round x - x\<bar> \<le> 1 / 2"
  unfolding abs_le_iff using math_round_near [of x] by linarith

lemma math_round_of_int: obtains n where "math_round x = of_int n"
  unfolding math_round_def by (metis of_int_minus)

lemma math_round_sign: "x < 0 \<Longrightarrow> math_round x \<le> 0" "0 \<le> x \<Longrightarrow> 0 \<le> math_round x"
  by (simp_all add: math_round_def)

lemma math_floor_le_round: "math_floor x \<le> math_round x"
proof -
  obtain n where n: "math_round x = of_int n" by (rule math_round_of_int)
  with math_round_near [of x] have "x < of_int n + 1" by linarith
  then have "\<lfloor>x\<rfloor> \<le> n" by (simp add: floor_le_iff)
  with n show ?thesis by (simp add: math_floor_def)
qed

lemma math_round_le_ceil: "math_round x \<le> math_ceil x"
proof -
  obtain n where n: "math_round x = of_int n" by (rule math_round_of_int)
  with math_round_near [of x] have "of_int n - 1 < x" by linarith
  then have "n \<le> \<lceil>x\<rceil>" by (simp add: le_ceiling_iff)
  with n show ?thesis by (simp add: math_ceil_def)
qed

lemma math_round_uminus: "math_round (- x) = - math_round x"
  unfolding math_round_def by auto

lemma math_fix_of_int [simp]:
  "math_round (of_int n) = of_int n"
  "math_ceil (of_int n) = of_int n"
  "math_floor (of_int n) = of_int n"
proof -
  have "\<lfloor>of_int n + 1 / 2 :: real\<rfloor> = n" "\<lfloor>- of_int n + 1 / 2 :: real\<rfloor> = - n"
    by (rule floor_unique; simp)+
  then show "math_round (of_int n) = of_int n"
    unfolding math_round_def by simp
qed (simp_all add: math_ceil_def math_floor_def)

lemma of_int_lt_plus_one: "(of_int a :: real) < of_int b + 1 \<Longrightarrow> a \<le> b"
  by (metis of_int_1 of_int_add of_int_less_iff zle_add1_eq_le)

lemma nearest_half_away_uminus:
  "nearest_half_away (- x) (- r) \<longleftrightarrow> nearest_half_away x r"
  by (simp add: nearest_half_away_def abs_minus_commute)

lemma math_round_tie:
  assumes "\<bar>x - math_round x\<bar> = 1 / 2"
  shows "\<bar>x\<bar> < \<bar>math_round x\<bar>"
proof (cases x rule: math_round_cases)
  case 1
  show ?thesis using assms 1(1,3,4) unfolding abs_if by (auto split: if_splits)
next
  case 2
  show ?thesis using assms 2(1,3,4) unfolding abs_if by (auto split: if_splits)
qed

lemma nearest_half_away_math_round: "nearest_half_away x (math_round x)"
  using math_round_dist [of x] math_round_tie [of x]
  by (simp add: nearest_half_away_def abs_minus_commute)

lemma nearest_half_away_unique_nonneg:
  assumes x: "0 \<le> x" and r: "nearest_half_away x r"
  shows "r = math_round x"
proof -
  from r obtain n where n: "r = of_int n" and d: "\<bar>x - r\<bar> \<le> 1 / 2"
    and t: "\<bar>x - r\<bar> = 1 / 2 \<longrightarrow> \<bar>x\<bar> < \<bar>r\<bar>"
    unfolding nearest_half_away_def by (auto elim: Ints_cases)
  have lo: "x - 1 / 2 < r"
  proof (rule ccontr)
    assume "\<not> x - 1 / 2 < r"
    with d have eq: "r = x - 1 / 2" by (simp add: abs_le_iff)
    with t have lt: "\<bar>x\<bar> < \<bar>r\<bar>" by simp
    have "0 \<le> n"
    proof (rule ccontr)
      assume "\<not> 0 \<le> n"
      then have "of_int n \<le> (-1 :: real)" by simp
      with eq n x show False by linarith
    qed
    with n eq x lt show False by simp
  qed
  have "of_int n \<le> x + 1 / 2" "x + 1 / 2 < of_int n + 1"
    using d lo n unfolding abs_le_iff by linarith+
  then have "\<lfloor>x + 1 / 2\<rfloor> = n" by (rule floor_unique)
  with n x show ?thesis by (simp add: math_round_def)
qed

text \<open>\<open>math_round\<close> meets the documented contract of Go's \<open>math.Round\<close>, which is exact on every \<open>float64\<close>: its result is the integer nearest to the argument, a tie going to the integer farther from zero, and no other integer qualifies.\<close>

lemma math_round_contract: "nearest_half_away x r \<longleftrightarrow> r = math_round x"
proof
  assume r: "nearest_half_away x r"
  show "r = math_round x"
  proof (cases "0 \<le> x")
    case True
    show ?thesis using True r by (rule nearest_half_away_unique_nonneg)
  next
    case False
    with r have "- r = math_round (- x)"
      by (intro nearest_half_away_unique_nonneg) (simp_all add: nearest_half_away_uminus)
    then show ?thesis by (simp add: math_round_uminus)
  qed
qed (simp add: nearest_half_away_math_round)

lemma go_pow10_sign [simp]:
  "go_pow10 d \<noteq> 0" "\<not> go_pow10 d < 0" "\<bar>go_pow10 d\<bar> = go_pow10 d"
  using go_pow10_pos [of d] by linarith+

text \<open>The three branches of the switch, with the multiplier named.\<close>

lemma round_go_branches:
  "round_go v d m =
     (if m = ''ceil'' then math_ceil (v * go_pow10 d)
      else if m = ''floor'' then math_floor (v * go_pow10 d)
      else math_round (v * go_pow10 d)) / go_pow10 d"
  by (simp add: round_go_def Let_def)

lemma math_floor_ceil_bounds:
  "math_floor x \<le> x" "x \<le> math_ceil x" "math_ceil x - math_floor x \<le> 1"
proof -
  have "\<lceil>x\<rceil> - \<lfloor>x\<rfloor> \<le> 1" by (rule ceiling_diff_floor_le_1)
  then show "math_ceil x - math_floor x \<le> 1"
    unfolding math_floor_def math_ceil_def by (metis of_int_1 of_int_diff of_int_le_iff)
qed (simp_all add: math_floor_def math_ceil_def)

text \<open>Dividing by the multiplier, which is positive, keeps the order.\<close>

lemma pow10_divide_order [simp]:
  "a / go_pow10 d \<le> b / go_pow10 d \<longleftrightarrow> a \<le> b"
  "a / go_pow10 d \<le> v \<longleftrightarrow> a \<le> v * go_pow10 d"
  "v \<le> a / go_pow10 d \<longleftrightarrow> v * go_pow10 d \<le> a"
  by (simp_all add: divide_le_cancel pos_divide_le_eq pos_le_divide_eq)

lemma math_ints [simp]: "math_ceil x \<in> \<int>" "math_floor x \<in> \<int>"
  by (simp_all add: math_ceil_def math_floor_def)

text \<open>C19: every mode string other than \<open>"ceil"\<close> and \<open>"floor"\<close> (a misspelt \<open>"Round"\<close>, the empty string) takes the \<open>default\<close> branch and rounds to nearest.\<close>

lemma round_go_default_mode:
  "mode \<noteq> ''ceil'' \<Longrightarrow> mode \<noteq> ''floor'' \<Longrightarrow> round_go v d mode = round_go v d ''round''"
  by (simp add: round_go_branches)

text \<open>C22: whatever the mode, the result lies between the \<open>"floor"\<close> result and the \<open>"ceil"\<close> result.\<close>

lemma round_go_bracket:
  "round_go v d ''floor'' \<le> round_go v d mode \<and> round_go v d mode \<le> round_go v d ''ceil''"
proof -
  let ?y = "v * go_pow10 d"
  have "math_floor ?y \<le> math_ceil ?y" using math_floor_ceil_bounds [of ?y] by linarith
  then show ?thesis
    using math_floor_le_round [of ?y] math_round_le_ceil [of ?y]
    by (auto simp: round_go_branches)
qed


section \<open>Witnesses\<close>

text \<open>
  Each theorem above with a hypothesis, applied where the hypothesis holds.
  \<open>26.85 + 0.005\<close> is a tie at two decimals: the \<open>default\<close> branch rounds it up.
\<close>

lemma round_go_default_mode_witness:
  "''Round'' \<noteq> ''ceil'' \<and> ''Round'' \<noteq> ''floor''
   \<and> round_go (2685 / 100 + 5 / 1000) 2 ''Round'' = 2686 / 100"
proof -
  have "round_go (2685 / 100 + 5 / 1000) 2 ''round'' = 2686 / 100"
    by (simp add: round_go_branches math_round_def go_pow10_def)
  then show ?thesis
    using round_go_default_mode [of "''Round''" "2685 / 100 + 5 / 1000" 2] by simp
qed

end
