(* ===== verification/Json.thy ===== *)
theory Json
  imports Prelude
begin

text \<open>
  The response types of \<open>src/main.go\<close> (\<open>Temperature\<close>, \<open>WeatherResponse\<close>,
  lines 15--21) and what \<open>json.NewDecoder(resp.Body).Decode(&weatherResponse)\<close>
  (line 36) does with a response body. The decoder is Go's \<open>encoding/json\<close>, a
  library: its behaviour on these two struct types is modelled from its
  documentation and is what the theorems below are about:
  \<^item> a body that is empty fails with \<open>io.EOF\<close>, one that is not JSON with a syntax
    error; only the first JSON value of the body is read;
  \<^item> an object key selects the field whose tag equals it, or, failing that, equals it
    up to case (\<open>"Main"\<close>, \<open>"TEMP"\<close>); other keys are ignored;
  \<^item> \<open>null\<close> leaves the target unchanged; a key that is absent leaves the field at
    its zero value, without error;
  \<^item> a value of the wrong JSON type is an \<open>UnmarshalTypeError\<close>; decoding goes on
    with the next key and \<open>Decode\<close> returns the first such error;
  \<^item> an object decoded into a struct field updates the field in place, so a key that
    occurs twice acts twice and the last value wins.
  A JSON body is a value of \<open>json\<close>; its text syntax is not modelled.
\<close>

section \<open>JSON values and the response structs\<close>

datatype json =
    JNull
  | JBool bool
  | JNumber float64
  | JString string
  | JArray "json list"
  | JObject "(string \<times> json) list"

text \<open>\<^verbatim>\<open>type Temperature struct { Temp float64 `json:"temp"` }\<close>\<close>

record temperature =
  Temp :: float64

text \<open>\<^verbatim>\<open>type WeatherResponse struct { Main Temperature `json:"main"` }\<close>\<close>

record weather_response =
  Main :: temperature

text \<open>\<open>weatherResponse := WeatherResponse{}\<close>: Go's zero value.\<close>

definition weather_zero :: weather_response where
  "weather_zero = \<lparr>Main = \<lparr>Temp = 0\<rparr>\<rparr>"

text \<open>What a response body holds.\<close>

datatype body = Empty_Body | Malformed_Body | Json_Body json

text \<open>
  The errors \<open>Decode\<close> returns: \<open>io.EOF\<close>, a \<open>SyntaxError\<close>, and an
  \<open>UnmarshalTypeError\<close> with its JSON value kind, struct, field path and Go type.
\<close>

datatype json_error =
    Eof_Error
  | Syntax_Error
  | Unmarshal_Type_Error string string string string

section \<open>The decoder\<close>

text \<open>The kind of a JSON value as \<open>UnmarshalTypeError\<close> names it.\<close>

fun json_kind :: "json \<Rightarrow> string" where
  "json_kind JNull = ''null''"
| "json_kind (JBool _) = ''bool''"
| "json_kind (JNumber _) = ''number''"
| "json_kind (JString _) = ''string''"
| "json_kind (JArray _) = ''array''"
| "json_kind (JObject _) = ''object''"

text \<open>
  Case folding of key bytes. Go folds with Unicode simple folding; the only
  non-ASCII runes that fold to ASCII letters are the Kelvin sign (to \<open>k\<close>) and the
  long s (to \<open>s\<close>), neither of which occurs in \<open>main\<close> or \<open>temp\<close>, so ASCII
  folding decides every match against these two tags.
\<close>

definition ascii_upper :: "char \<Rightarrow> char" where
  "ascii_upper c =
     (case map_of (zip ''abcdefghijklmnopqrstuvwxyz'' ''ABCDEFGHIJKLMNOPQRSTUVWXYZ'') c of
        Some u \<Rightarrow> u
      | None \<Rightarrow> c)"

definition key_matches :: "string \<Rightarrow> string \<Rightarrow> bool" where
  "key_matches tag k \<longleftrightarrow> k = tag \<or> map ascii_upper k = map ascii_upper tag"

text \<open>\<open>d.saveError\<close>: the first error is kept.\<close>

definition save_error :: "json_error option \<Rightarrow> json_error \<Rightarrow> json_error option" where
  "save_error e new = (case e of None \<Rightarrow> Some new | Some old \<Rightarrow> Some old)"

text \<open>The value under \<open>temp\<close>, decoded into the \<open>float64\<close> field.\<close>

fun decode_temp :: "json \<Rightarrow> float64 \<times> json_error option \<Rightarrow> float64 \<times> json_error option" where
  "decode_temp JNull s = s"
| "decode_temp (JNumber r) (t, e) = (r, e)"
| "decode_temp j (t, e) =
     (t, save_error e (Unmarshal_Type_Error (json_kind j) ''Temperature'' ''main.temp'' ''float64''))"

text \<open>The members of the object under \<open>main\<close>, decoded into \<open>Temperature\<close>.\<close>

fun decode_temperature_members ::
  "(string \<times> json) list \<Rightarrow> temperature \<times> json_error option \<Rightarrow> temperature \<times> json_error option"
where
  "decode_temperature_members [] s = s"
| "decode_temperature_members ((k, j) # ms) (r, e) =
     decode_temperature_members ms
       (if key_matches ''temp'' k
        then (case decode_temp j (Temp r, e) of (t, e') \<Rightarrow> (r\<lparr>Temp := t\<rparr>, e'))
        else (r, e))"

fun decode_temperature ::
  "json \<Rightarrow> temperature \<times> json_error option \<Rightarrow> temperature \<times> json_error option" where
  "decode_temperature JNull s = s"
| "decode_temperature (JObject ms) s = decode_temperature_members ms s"
| "decode_temperature j (r, e) =
     (r, save_error e (Unmarshal_Type_Error (json_kind j) ''WeatherResponse'' ''main'' ''main.Temperature''))"

text \<open>The members of the top-level object, decoded into \<open>WeatherResponse\<close>.\<close>

fun decode_response_members ::
  "(string \<times> json) list \<Rightarrow> weather_response \<times> json_error option
   \<Rightarrow> weather_response \<times> json_error option"
where
  "decode_response_members [] s = s"
| "decode_response_members ((k, j) # ms) (w, e) =
     decode_response_members ms
       (if key_matches ''main'' k
        then (case decode_temperature j (Main w, e) of (r, e') \<Rightarrow> (w\<lparr>Main := r\<rparr>, e'))
        else (w, e))"

fun decode_response ::
  "json \<Rightarrow> weather_response \<times> json_error option \<Rightarrow> weather_response \<times> json_error option" where
  "decode_response JNull s = s"
| "decode_response (JObject ms) s = decode_response_members ms s"
| "decode_response j (w, e) =
     (w, save_error e (Unmarshal_Type_Error (json_kind j) [] [] ''main.WeatherResponse''))"

text \<open>
  \<open>Decode(&weatherResponse)\<close> on a fresh \<open>WeatherResponse{}\<close>: the decoded
  struct, or the error \<open>Decode\<close> returns.
\<close>

definition json_decode :: "body \<Rightarrow> json_error + weather_response" where
  "json_decode b =
     (case b of
        Empty_Body \<Rightarrow> Inl Eof_Error
      | Malformed_Body \<Rightarrow> Inl Syntax_Error
      | Json_Body j \<Rightarrow>
          (case decode_response j (weather_zero, None) of
             (w, None) \<Rightarrow> Inr w
           | (_, Some e) \<Rightarrow> Inl e))"

section \<open>A reference specification of the decoder\<close>

text \<open>
  What \<open>Decode\<close> leaves in \<open>Main.Temp\<close>, stated without its update loop: the
  numbers found under a \<open>temp\<close> key of an object under a \<open>main\<close> key, in order,
  of which the last one wins (none: the zero value); and when it succeeds: when no
  value on that path has a JSON type its Go field cannot take.
\<close>

definition member_temps :: "(string \<times> json) list \<Rightarrow> float64 list" where
  "member_temps ms =
     concat (map (\<lambda>(k, j). if key_matches ''temp'' k
                           then (case j of JNumber r \<Rightarrow> [r] | _ \<Rightarrow> []) else []) ms)"

definition response_temps :: "json \<Rightarrow> float64 list" where
  "response_temps j =
     (case j of
        JObject ms \<Rightarrow>
          concat (map (\<lambda>(k, x). if key_matches ''main'' k
                                then (case x of JObject ms' \<Rightarrow> member_temps ms' | _ \<Rightarrow> []) else []) ms)
      | _ \<Rightarrow> [])"

definition temp_ok :: "json \<Rightarrow> bool" where
  "temp_ok j = (case j of JNull \<Rightarrow> True | JNumber _ \<Rightarrow> True | _ \<Rightarrow> False)"

definition temperature_ok :: "json \<Rightarrow> bool" where
  "temperature_ok j =
     (case j of
        JNull \<Rightarrow> True
      | JObject ms \<Rightarrow> list_all (\<lambda>(k, x). \<not> key_matches ''temp'' k \<or> temp_ok x) ms
      | _ \<Rightarrow> False)"

definition response_ok :: "json \<Rightarrow> bool" where
  "response_ok j =
     (case j of
        JNull \<Rightarrow> True
      | JObject ms \<Rightarrow> list_all (\<lambda>(k, x). \<not> key_matches ''main'' k \<or> temperature_ok x) ms
      | _ \<Rightarrow> False)"

declare json_decode_def [go_eval] key_matches_def [go_eval] ascii_upper_def [go_eval]
  weather_zero_def [go_eval]

section \<open>Decoding meets the reference specification\<close>

lemma save_error_not_None [simp]: "save_error e x \<noteq> None"
  by (simp add: save_error_def split: option.split)

lemma decode_temp_spec:
  "fst (decode_temp j (t, e)) = last_or t (case j of JNumber r \<Rightarrow> [r] | _ \<Rightarrow> [])"
  "snd (decode_temp j (t, e)) = None \<longleftrightarrow> e = None \<and> temp_ok j"
  by (cases j; simp add: temp_ok_def)+

lemma decode_temperature_members_spec:
  "Temp (fst (decode_temperature_members ms (r, e))) = last_or (Temp r) (member_temps ms)
   \<and> (snd (decode_temperature_members ms (r, e)) = None
      \<longleftrightarrow> e = None \<and> list_all (\<lambda>(k, x). \<not> key_matches ''temp'' k \<or> temp_ok x) ms)"
proof (induction ms arbitrary: r e)
  case Nil
  then show ?case by (simp add: member_temps_def)
next
  case (Cons m ms)
  obtain k j where m: "m = (k, j)" by fastforce
  show ?case
  proof (cases "key_matches ''temp'' k")
    case True
    obtain t e' where d: "decode_temp j (Temp r, e) = (t, e')" by fastforce
    from Cons.IH [of "r\<lparr>Temp := t\<rparr>" e'] d decode_temp_spec [of j "Temp r" e] True m
    show ?thesis by (auto simp: member_temps_def)
  next
    case False
    with Cons.IH [of r e] m show ?thesis by (simp add: member_temps_def)
  qed
qed


lemma decode_temperature_spec:
  "Temp (fst (decode_temperature j (r, e)))
     = last_or (Temp r) (case j of JObject ms \<Rightarrow> member_temps ms | _ \<Rightarrow> [])
   \<and> (snd (decode_temperature j (r, e)) = None \<longleftrightarrow> e = None \<and> temperature_ok j)"
  by (cases j) (simp_all add: temperature_ok_def decode_temperature_members_spec)

lemma decode_response_members_spec:
  "Temp (Main (fst (decode_response_members ms (w, e))))
     = last_or (Temp (Main w)) (response_temps (JObject ms))
   \<and> (snd (decode_response_members ms (w, e)) = None
      \<longleftrightarrow> e = None \<and> list_all (\<lambda>(k, x). \<not> key_matches ''main'' k \<or> temperature_ok x) ms)"
proof (induction ms arbitrary: w e)
  case Nil
  then show ?case by (simp add: response_temps_def)
next
  case (Cons m ms)
  obtain k j where m: "m = (k, j)" by fastforce
  show ?case
  proof (cases "key_matches ''main'' k")
    case True
    obtain r e' where d: "decode_temperature j (Main w, e) = (r, e')" by fastforce
    from Cons.IH [of "w\<lparr>Main := r\<rparr>" e'] d decode_temperature_spec [of j "Main w" e] True m
    show ?thesis by (auto simp: response_temps_def split: json.splits)
  next
    case False
    with Cons.IH [of w e] m show ?thesis by (simp add: response_temps_def)
  qed
qed

lemma decode_response_spec:
  "Temp (Main (fst (decode_response j (w, e)))) = last_or (Temp (Main w)) (response_temps j)
   \<and> (snd (decode_response j (w, e)) = None \<longleftrightarrow> e = None \<and> response_ok j)"
  by (cases j) (simp_all add: response_ok_def response_temps_def decode_response_members_spec)

lemma weather_response_eq_iff:
  "(w :: weather_response) = w' \<longleftrightarrow> Temp (Main w) = Temp (Main w')"
  by (auto intro!: weather_response.equality temperature.equality)

lemma json_decode_ok:
  "response_ok j \<Longrightarrow>
   json_decode (Json_Body j) = Inr \<lparr>Main = \<lparr>Temp = last_or 0 (response_temps j)\<rparr>\<rparr>"
proof -
  assume ok: "response_ok j"
  obtain w' e where d: "decode_response j (weather_zero, None) = (w', e)" by fastforce
  from decode_response_spec [of j weather_zero None] d ok
  have "Temp (Main w') = last_or 0 (response_temps j)" "e = None"
    by (simp_all add: weather_zero_def)
  with d show ?thesis by (simp add: json_decode_def weather_response_eq_iff)
qed

lemma json_decode_not_ok:
  "\<not> response_ok j \<Longrightarrow> \<exists>e. json_decode (Json_Body j) = Inl e"
proof -
  assume nok: "\<not> response_ok j"
  obtain w' e where d: "decode_response j (weather_zero, None) = (w', e)" by fastforce
  from decode_response_spec [of j weather_zero None] d nok have "e \<noteq> None" by simp
  with d show ?thesis by (auto simp: json_decode_def)
qed

text \<open>C6: decoding a JSON body succeeds exactly when every value under \<open>main\<close> and \<open>main.temp\<close> (keys matched up to case) has a type the struct field accepts, and then \<open>Main.Temp\<close> holds the last number found under such a key, or 0 when there is none.\<close>

lemma json_decode_spec:
  "json_decode (Json_Body j) = Inr w
   \<longleftrightarrow> response_ok j \<and> w = \<lparr>Main = \<lparr>Temp = last_or 0 (response_temps j)\<rparr>\<rparr>"
proof (cases "response_ok j")
  case True
  then show ?thesis using json_decode_ok [OF True] by auto
next
  case False
  then obtain e where "json_decode (Json_Body j) = Inl e" using json_decode_not_ok by blast
  with False show ?thesis by simp
qed

text \<open>An object without a \<open>main\<close> key, in any case, decodes without error to the zero value.\<close>

lemma json_decode_without_main:
  "list_all (\<lambda>(k, x). \<not> key_matches ''main'' k) ms
   \<Longrightarrow> json_decode (Json_Body (JObject ms)) = Inr weather_zero"
proof -
  assume "list_all (\<lambda>(k, x). \<not> key_matches ''main'' k) ms"
  then have "response_ok (JObject ms)" "response_temps (JObject ms) = []"
    by (induction ms) (auto simp: response_ok_def response_temps_def)
  then show ?thesis by (simp add: json_decode_ok weather_zero_def)
qed

section \<open>Witnesses\<close>

text \<open>
  Duplicate keys, matched up to case: the last number wins.
\<close>

lemma json_decode_spec_witness:
  "json_decode (Json_Body (JObject [(''main'', JObject [(''temp'', JNumber 300), (''TEMP'', JNumber 301)])]))
   = Inr \<lparr>Main = \<lparr>Temp = 301\<rparr>\<rparr>"
  using json_decode_spec [of "JObject [(''main'', JObject [(''temp'', JNumber 300), (''TEMP'', JNumber 301)])]"
      "\<lparr>Main = \<lparr>Temp = 301\<rparr>\<rparr>"]
  by (simp add: response_ok_def temperature_ok_def temp_ok_def response_temps_def member_temps_def
      key_matches_def ascii_upper_def)

end
