(* ===== verification/World.thy ===== *)
theory World
  imports Json
begin

text \<open>
  The part of the outside world \<open>src/main.go\<close> reads and changes, as one record
  threaded through the model's operations (the shape of an I/O monad, written as
  explicit state passing):
  \<^item> \<open>net\<close>: what \<open>http.Get\<close> returns for a URL, a transport error or a response
    with its status code and body. It is a function of the URL: the model assumes
    the weather service answers the same URL the same way during one run;
  \<^item> \<open>env\<close> and \<open>dotenv\<close>: the process environment and the \<open>.env\<close> file of the
    working directory (missing, unreadable, or a list of assignments);
  \<^item> \<open>elapsed\<close>: the text \<open>time.Since(startNow)\<close> prints as at exit;
  \<^item> \<open>out\<close>: the lines written to standard output, by the \<open>slog\<close> text handler
    (a level, a message and the attributes, unformatted) or by \<open>fmt.Printf\<close>;
  \<^item> \<open>requests\<close>: the URLs requested, in order;
  \<^item> \<open>open_bodies\<close>: the response bodies opened and not yet closed.
\<close>

section \<open>Errors, log lines, the world\<close>

text \<open>The result of \<open>http.Get\<close>: \<open>err != nil\<close>, or a response.\<close>

datatype http_result = Transport_Failure string | Http_Response nat body

text \<open>The \<open>error\<close> values the program handles: from \<open>http.Get\<close>, from \<open>Decode\<close>, from \<open>godotenv.Load\<close>.\<close>

datatype go_error = Http_Error string | Json_Error json_error | Env_File_Error string

datatype log_level = Level_Debug | Level_Info | Level_Warn | Level_Error

text \<open>The values of log attributes: strings, errors (\<open>err.Error()\<close>), numbers.\<close>

datatype attr_value = Str_Value string | Err_Value go_error | Float_Value float64

datatype out_line =
    Log_Line log_level string "(string \<times> attr_value) list"
  | Print_Line string

text \<open>The \<open>.env\<close> file as \<open>godotenv\<close> finds it.\<close>

datatype dotenv_file = Dotenv_Missing | Dotenv_Unreadable string | Dotenv_File "(string \<times> string) list"

record world =
  net :: "string \<Rightarrow> http_result"
  env :: "string \<rightharpoonup> string"
  dotenv :: dotenv_file
  elapsed :: string
  out :: "out_line list"
  requests :: "string list"
  open_bodies :: nat

section \<open>Effects\<close>

text \<open>\<open>logger.Info(msg, attrs...)\<close>, \<open>logger.Error(msg, attrs...)\<close>: one line on standard output.\<close>

definition slog :: "log_level \<Rightarrow> string \<Rightarrow> (string \<times> attr_value) list \<Rightarrow> world \<Rightarrow> world" where
  "slog lvl msg attrs w = w\<lparr>out := out w @ [Log_Line lvl msg attrs]\<rparr>"

text \<open>\<open>http.Get(url)\<close>: the request is made; a response comes with an open body.\<close>

definition http_get :: "string \<Rightarrow> world \<Rightarrow> http_result \<times> world" where
  "http_get url w =
     (let r = net w url in
      (r, w\<lparr>requests := requests w @ [url],
            open_bodies := open_bodies w + (case r of Http_Response _ _ \<Rightarrow> 1 | Transport_Failure _ \<Rightarrow> 0)\<rparr>))"

text \<open>\<open>resp.Body.Close()\<close>.\<close>

definition body_close :: "world \<Rightarrow> world" where
  "body_close w = w\<lparr>open_bodies := open_bodies w - 1\<rparr>"

text \<open>\<open>os.Getenv(key)\<close>: the empty string for an unset variable.\<close>

definition getenv :: "world \<Rightarrow> string \<Rightarrow> string" where
  "getenv w k = (case env w k of Some v \<Rightarrow> v | None \<Rightarrow> [])"

text \<open>The world when the process starts: nothing printed, requested or open yet.\<close>

definition process_start ::
  "(string \<Rightarrow> http_result) \<Rightarrow> (string \<rightharpoonup> string) \<Rightarrow> dotenv_file \<Rightarrow> string \<Rightarrow> world" where
  "process_start n e d t =
     \<lparr>net = n, env = e, dotenv = d, elapsed = t, out = [], requests = [], open_bodies = 0\<rparr>"

declare process_start_def [go_eval] slog_def [go_eval] http_get_def [go_eval] body_close_def [go_eval] getenv_def [go_eval]

section \<open>Frame facts\<close>

lemma slog_fields [simp]:
  "net (slog lvl msg a w) = net w" "env (slog lvl msg a w) = env w"
  "dotenv (slog lvl msg a w) = dotenv w" "elapsed (slog lvl msg a w) = elapsed w"
  "requests (slog lvl msg a w) = requests w" "open_bodies (slog lvl msg a w) = open_bodies w"
  "out (slog lvl msg a w) = out w @ [Log_Line lvl msg a]"
  by (simp_all add: slog_def)

lemma body_close_fields [simp]:
  "net (body_close w) = net w" "env (body_close w) = env w"
  "dotenv (body_close w) = dotenv w" "elapsed (body_close w) = elapsed w"
  "requests (body_close w) = requests w" "out (body_close w) = out w"
  "open_bodies (body_close w) = open_bodies w - 1"
  by (simp_all add: body_close_def)

end
