(* ===== verification/Fetch.thy ===== *)
theory Fetch
  imports World
begin

text \<open>
  \<open>fetchWeatherData\<close> of \<open>src/main.go\<close> (lines 23--41): build the request URL
  with \<open>fmt.Sprintf\<close>, \<open>http.Get\<close> it, decode the body into a fresh
  \<open>WeatherResponse\<close>, return \<open>&weatherResponse.Main\<close> or the error, logging the
  error first. \<open>defer resp.Body.Close()\<close> closes the body on both paths after
  \<open>http.Get\<close> succeeded. The HTTP status code is never looked at.
\<close>

section \<open>The request URL\<close>

text \<open>\<open>fmt.Sprintf(".../weather?lat=%s&lon=%s&appid=%s", lat, lon, apiKey)\<close>: \<open>%s\<close> inserts the string as it is, unescaped.\<close>

definition weather_url :: "string \<Rightarrow> string \<Rightarrow> string \<Rightarrow> string" where
  "weather_url lat lon apiKey =
     ''https://api.openweathermap.org/data/2.5/weather?lat='' @ lat @ ''&lon='' @ lon
     @ ''&appid='' @ apiKey"

section \<open>The fetcher\<close>

definition fetchWeatherData :: "string \<Rightarrow> string \<Rightarrow> string \<Rightarrow> world \<Rightarrow> (go_error + temperature) \<times> world" where
  "fetchWeatherData lat lon apiKey w =
     (let url = weather_url lat lon apiKey in
      case http_get url w of
        (Transport_Failure msg, w1) \<Rightarrow>
          (Inl (Http_Error msg),
           slog Level_Error ''Error making HTTP request'' [(''error'', Err_Value (Http_Error msg))] w1)
      | (Http_Response status b, w1) \<Rightarrow>
          (case json_decode b of
             Inl e \<Rightarrow>
               (Inl (Json_Error e),
                body_close (slog Level_Error ''Error decoding JSON response''
                  [(''error'', Err_Value (Json_Error e))] w1))
           | Inr weatherResponse \<Rightarrow> (Inr (Main weatherResponse), body_close w1)))"

section \<open>How a server reads the query\<close>

text \<open>
  The server's side of the URL, to state what the request carries: the query is
  what follows the first \<open>?\<close>, up to a \<open>#\<close>; it is split at every \<open>&\<close>, and
  each parameter at its first \<open>=\<close>.
\<close>

fun split_on :: "char \<Rightarrow> string \<Rightarrow> string list" where
  "split_on c [] = [[]]"
| "split_on c (x # xs) =
     (let r = split_on c xs in if x = c then [] # r else (x # hd r) # tl r)"

definition query_param :: "string \<Rightarrow> string \<times> string" where
  "query_param p = (takeWhile (\<lambda>c. c \<noteq> CHR ''='') p, drop 1 (dropWhile (\<lambda>c. c \<noteq> CHR ''='') p))"

definition query_params :: "string \<Rightarrow> (string \<times> string) list" where
  "query_params url =
     map query_param
       (split_on (CHR ''&'')
         (takeWhile (\<lambda>c. c \<noteq> CHR ''#'') (drop 1 (dropWhile (\<lambda>c. c \<noteq> CHR ''?'') url))))"

text \<open>A string a query carries as one value: no \<open>&\<close> and no \<open>#\<close>.\<close>

definition query_safe :: "string \<Rightarrow> bool" where
  "query_safe s \<longleftrightarrow> CHR ''&'' \<notin> set s \<and> CHR ''#'' \<notin> set s"

declare weather_url_def [go_eval] fetchWeatherData_def [go_eval]

section \<open>The query a request carries\<close>

lemma split_on_no_sep: "c \<notin> set xs \<Longrightarrow> split_on c xs = [xs]"
  by (induction xs) (auto simp: Let_def)

lemma split_on_append_sep:
  "c \<notin> set xs \<Longrightarrow> split_on c (xs @ c # ys) = xs # split_on c ys"
  by (induction xs) (auto simp: Let_def)

text \<open>C20: when latitude, longitude and API key contain no \<open>&\<close> and no \<open>#\<close>, the request URL carries exactly the three query parameters \<open>lat\<close>, \<open>lon\<close> and \<open>appid\<close> with these values, in this order.\<close>

lemma query_params_weather_url:
  "query_safe lat \<Longrightarrow> query_safe lon \<Longrightarrow> query_safe apiKey \<Longrightarrow>
   query_params (weather_url lat lon apiKey) = [(''lat'', lat), (''lon'', lon), (''appid'', apiKey)]"
proof -
  assume a: "query_safe lat" "query_safe lon" "query_safe apiKey"
  have q: "takeWhile (\<lambda>c. c \<noteq> CHR ''#'') (drop 1 (dropWhile (\<lambda>c. c \<noteq> CHR ''?'') (weather_url lat lon apiKey)))
      = ''lat='' @ lat @ ''&lon='' @ lon @ ''&appid='' @ apiKey"
    using a by (simp add: weather_url_def query_safe_def) blast
  show ?thesis
    unfolding query_params_def q using a
    by (simp add: query_safe_def split_on_append_sep split_on_no_sep query_param_def)
qed

text \<open>C21: the parameters are not escaped: when the API key holds an \<open>&\<close>, the server reads as \<open>appid\<close> only the part before it, and every \<open>&\<close>-separated piece after it as a parameter of its own (a key \<open>k&lat=0\<close> adds a second \<open>lat\<close>).\<close>

lemma query_params_key_injection:
  "query_safe lat \<Longrightarrow> query_safe lon \<Longrightarrow> query_safe k \<Longrightarrow> CHR ''#'' \<notin> set rest \<Longrightarrow>
   query_params (weather_url lat lon (k @ CHR ''&'' # rest)) =
     [(''lat'', lat), (''lon'', lon), (''appid'', k)] @ map query_param (split_on (CHR ''&'') rest)"
proof -
  assume a: "query_safe lat" "query_safe lon" "query_safe k" and r: "CHR ''#'' \<notin> set rest"
  have q: "takeWhile (\<lambda>c. c \<noteq> CHR ''#'') (drop 1 (dropWhile (\<lambda>c. c \<noteq> CHR ''?'')
        (weather_url lat lon (k @ CHR ''&'' # rest))))
      = ''lat='' @ lat @ ''&lon='' @ lon @ ''&appid='' @ k @ CHR ''&'' # rest"
    using a r by (simp add: weather_url_def query_safe_def) blast
  show ?thesis
    unfolding query_params_def q using a
    by (simp add: query_safe_def split_on_append_sep query_param_def)
qed

section \<open>The fetcher's result and effects\<close>

lemma fetchWeatherData_result:
  "fst (fetchWeatherData lat lon apiKey w) =
     (case net w (weather_url lat lon apiKey) of
        Transport_Failure msg \<Rightarrow> Inl (Http_Error msg)
      | Http_Response status b \<Rightarrow>
          (case json_decode b of Inl e \<Rightarrow> Inl (Json_Error e) | Inr r \<Rightarrow> Inr (Main r)))"
  by (simp add: fetchWeatherData_def http_get_def Let_def split: http_result.split sum.split)

text \<open>The world after a fetch: the request recorded, at most one error line logged, every body closed.\<close>

lemma fetchWeatherData_world:
  "snd (fetchWeatherData lat lon apiKey w) =
     w\<lparr>out := out w @
         (case fst (fetchWeatherData lat lon apiKey w) of
            Inl e \<Rightarrow>
              [Log_Line Level_Error
                 (case e of Http_Error _ \<Rightarrow> ''Error making HTTP request''
                  | _ \<Rightarrow> ''Error decoding JSON response'')
                 [(''error'', Err_Value e)]]
          | Inr _ \<Rightarrow> []),
       requests := requests w @ [weather_url lat lon apiKey]\<rparr>"
  by (simp add: fetchWeatherData_def http_get_def slog_def body_close_def Let_def
      split: http_result.split sum.split)

text \<open>C3: when \<open>http.Get\<close> fails, \<open>fetchWeatherData\<close> returns that error, having requested the URL and logged one error line, \<open>Error making HTTP request\<close>, with the error.\<close>

lemma fetchWeatherData_transport_error:
  "net w (weather_url lat lon apiKey) = Transport_Failure msg \<Longrightarrow>
   fetchWeatherData lat lon apiKey w =
     (Inl (Http_Error msg),
      w\<lparr>out := out w @ [Log_Line Level_Error ''Error making HTTP request''
                           [(''error'', Err_Value (Http_Error msg))]],
        requests := requests w @ [weather_url lat lon apiKey]\<rparr>)"
  by (simp add: fetchWeatherData_def http_get_def slog_def)

text \<open>C4: when the body does not decode, \<open>fetchWeatherData\<close> returns the decoder's error, having logged one error line, \<open>Error decoding JSON response\<close>, and closed the body.\<close>

lemma fetchWeatherData_decode_error:
  "net w (weather_url lat lon apiKey) = Http_Response status b \<Longrightarrow> json_decode b = Inl e \<Longrightarrow>
   fetchWeatherData lat lon apiKey w =
     (Inl (Json_Error e),
      w\<lparr>out := out w @ [Log_Line Level_Error ''Error decoding JSON response''
                           [(''error'', Err_Value (Json_Error e))]],
        requests := requests w @ [weather_url lat lon apiKey]\<rparr>)"
  by (simp add: fetchWeatherData_def http_get_def slog_def body_close_def)

text \<open>C5: when the body decodes, \<open>fetchWeatherData\<close> returns its \<open>Main\<close> part, logs nothing and closes the body, whatever the status code.\<close>

lemma fetchWeatherData_success:
  "net w (weather_url lat lon apiKey) = Http_Response status b \<Longrightarrow> json_decode b = Inr r \<Longrightarrow>
   fetchWeatherData lat lon apiKey w =
     (Inr (Main r), w\<lparr>requests := requests w @ [weather_url lat lon apiKey]\<rparr>)"
  by (simp add: fetchWeatherData_def http_get_def body_close_def)

text \<open>C10: an error response of the service (any status, a JSON object without \<open>main\<close>, such as OpenWeatherMap's 401 reply to a bad key) is returned as a successful reading of 0 Kelvin.\<close>

lemma fetchWeatherData_ignores_status:
  "net w (weather_url lat lon apiKey) = Http_Response status (Json_Body (JObject ms))
   \<Longrightarrow> list_all (\<lambda>(k, x). \<not> key_matches ''main'' k) ms
   \<Longrightarrow> fst (fetchWeatherData lat lon apiKey w) = Inr \<lparr>Temp = 0\<rparr>"
  by (simp add: fetchWeatherData_result json_decode_without_main weather_zero_def)

section \<open>Witnesses\<close>

lemma query_params_weather_url_witness:
  "query_params (weather_url ''6.9271'' ''79.8612'' ''0123abcd'') =
     [(''lat'', ''6.9271''), (''lon'', ''79.8612''), (''appid'', ''0123abcd'')]"
  using query_params_weather_url [of "''6.9271''" "''79.8612''" "''0123abcd''"]
  by (simp add: query_safe_def)

lemma query_params_key_injection_witness:
  "query_params (weather_url ''6.9271'' ''79.8612'' ''k&lat=0'') =
     [(''lat'', ''6.9271''), (''lon'', ''79.8612''), (''appid'', ''k''), (''lat'', ''0'')]"
  using query_params_key_injection [of "''6.9271''" "''79.8612''" "''k''" "''lat=0''"]
  by (simp add: query_safe_def query_param_def)

lemma fetchWeatherData_transport_error_witness:
  "fetchWeatherData ''6.9271'' ''79.8612'' ''k''
     (process_start (\<lambda>_. Transport_Failure ''i/o timeout'') Map.empty Dotenv_Missing ''1s'')
   = (Inl (Http_Error ''i/o timeout''),
      process_start (\<lambda>_. Transport_Failure ''i/o timeout'') Map.empty Dotenv_Missing ''1s''
      \<lparr>out := [Log_Line Level_Error ''Error making HTTP request''
                 [(''error'', Err_Value (Http_Error ''i/o timeout''))]],
       requests := [weather_url ''6.9271'' ''79.8612'' ''k'']\<rparr>)"
  using fetchWeatherData_transport_error
      [of "process_start (\<lambda>_. Transport_Failure ''i/o timeout'') Map.empty Dotenv_Missing ''1s''"]
  by (simp add: process_start_def)

lemma fetchWeatherData_decode_error_witness:
  "fetchWeatherData ''6.9271'' ''79.8612'' ''k''
     (process_start (\<lambda>_. Http_Response 502 Malformed_Body) Map.empty Dotenv_Missing ''1s'')
   = (Inl (Json_Error Syntax_Error),
      process_start (\<lambda>_. Http_Response 502 Malformed_Body) Map.empty Dotenv_Missing ''1s''
      \<lparr>out := [Log_Line Level_Error ''Error decoding JSON response''
                 [(''error'', Err_Value (Json_Error Syntax_Error))]],
       requests := [weather_url ''6.9271'' ''79.8612'' ''k'']\<rparr>)"
  using fetchWeatherData_decode_error
      [of "process_start (\<lambda>_. Http_Response 502 Malformed_Body) Map.empty Dotenv_Missing ''1s''"]
  by (simp add: process_start_def json_decode_def)

lemma fetchWeatherData_success_witness:
  "fetchWeatherData ''6.9271'' ''79.8612'' ''k''
     (process_start (\<lambda>_. Http_Response 200 (Json_Body (JObject [(''main'', JObject [(''temp'', JNumber 300)])])))
        Map.empty Dotenv_Missing ''1s'')
   = (Inr \<lparr>Temp = 300\<rparr>,
      process_start (\<lambda>_. Http_Response 200 (Json_Body (JObject [(''main'', JObject [(''temp'', JNumber 300)])])))
        Map.empty Dotenv_Missing ''1s''
      \<lparr>requests := [weather_url ''6.9271'' ''79.8612'' ''k'']\<rparr>)"
  using fetchWeatherData_success
      [of "process_start (\<lambda>_. Http_Response 200 (Json_Body (JObject [(''main'', JObject [(''temp'', JNumber 300)])])))
        Map.empty Dotenv_Missing ''1s''" _ _ _ 200 _ "\<lparr>Main = \<lparr>Temp = 300\<rparr>\<rparr>"]
  by (simp add: process_start_def json_decode_def key_matches_def weather_zero_def)

lemma fetchWeatherData_ignores_status_witness:
  "fst (fetchWeatherData ''6.9271'' ''79.8612'' ''bad-key''
     (process_start (\<lambda>_. Http_Response 401
        (Json_Body (JObject [(''cod'', JNumber 401), (''message'', JString ''Invalid API key'')])))
        Map.empty Dotenv_Missing ''1s''))
   = Inr \<lparr>Temp = 0\<rparr>"
  using fetchWeatherData_ignores_status
      [of "process_start (\<lambda>_. Http_Response 401
        (Json_Body (JObject [(''cod'', JNumber 401), (''message'', JString ''Invalid API key'')])))
        Map.empty Dotenv_Missing ''1s''" "''6.9271''" "''79.8612''" "''bad-key''" 401
        "[(''cod'', JNumber 401), (''message'', JString ''Invalid API key'')]"]
  by (simp add: process_start_def key_matches_def ascii_upper_def)

end
