(* ===== verification/Driver.thy ===== *)
theory Driver
  imports Round Fetch "HOL-Library.AList"
begin

text \<open>
  \<open>main\<close> of \<open>src/main.go\<close> (lines 43--81): load \<open>.env\<close>, log the start, read
  \<open>API_KEY\<close>, build the city map, and for every entry fetch the temperature and log
  it in Celsius, rounded to two decimals, or log the failure and go on; at exit the
  deferred calls log \<open>Application stopped\<close> and print the execution time, in
  last-in-first-out order.
  Go's \<open>range\<close> over a map visits the entries in an unspecified order:
  \<open>range_cities\<close> runs the loop over a given visit order, and \<open>main_run\<close>
  relates a start world to each world \<open>main\<close> can end in, over every ordering of
  the map's entries.
\<close>

section \<open>The city registry\<close>

text \<open>
  \<^verbatim>\<open>
  cities := make(map[string][2]string)
  cities["Colombo"] = [2]string{"6.9271", "79.8612"}
  ...
  \<close>
  A map assignment is \<open>AList.update\<close>: it replaces the entry of an existing key
  and adds one otherwise.
\<close>

definition cities :: "(string \<times> coord) list" where
  "cities =
     AList.update ''Tokyo'' (''35.6895'', ''139.6917'')
       (AList.update ''London'' (''51.5074'', ''-0.1278'')
         (AList.update ''New York'' (''40.7128'', ''-74.0060'')
           (AList.update ''Colombo'' (''6.9271'', ''79.8612'') [])))"

section \<open>The loop body\<close>

text \<open>The attribute key \<open>"temperature(\<degree>C)"\<close>: the degree sign is the two UTF-8 bytes \<open>C2 B0\<close>.\<close>

definition temperature_key :: string where
  "temperature_key = ''temperature('' @ [CHR 0xC2, CHR 0xB0] @ ''C)''"

text \<open>
  \<^verbatim>\<open>
  temperature, err := fetchWeatherData(city[0], city[1], apiKey, logger)
  if err != nil { logger.Error("Failed to fetch weather data", "error", ..., "city", cityName); continue }
  tempC := temperature.Temp - 273.15
  logger.Info("Fetched weather data successfully", "city", cityName,
      "temperature(\<degree>C)", round(tempC, 2, "round"))
  \<close>
\<close>

fun visit_city :: "string \<Rightarrow> world \<Rightarrow> string \<times> coord \<Rightarrow> world" where
  "visit_city apiKey w (cityName, city) =
     (case fetchWeatherData (fst city) (snd city) apiKey w of
        (Inl err, w') \<Rightarrow>
          slog Level_Error ''Failed to fetch weather data''
            [(''error'', Err_Value err), (''city'', Str_Value cityName)] w'
      | (Inr temperature, w') \<Rightarrow>
          (let tempC = Temp temperature - 27315 / 100 in
           slog Level_Info ''Fetched weather data successfully''
             [(''city'', Str_Value cityName), (temperature_key, Float_Value (round_go tempC 2 ''round''))] w'))"

section \<open>The loop\<close>

text \<open>\<open>for cityName, city := range cities\<close>, visiting the entries in the order given.\<close>

fun range_cities :: "string \<Rightarrow> (string \<times> coord) list \<Rightarrow> world \<Rightarrow> world" where
  "range_cities apiKey [] w = w"
| "range_cities apiKey (c # cs) w = range_cities apiKey cs (visit_city apiKey w c)"

section \<open>Configuration\<close>

text \<open>
  \<open>godotenv.Load()\<close>: read \<open>.env\<close>; on success set each variable it assigns
  (the last assignment of a name wins) unless the environment already has it.
  A missing file is an error, reported and otherwise ignored by \<open>main\<close>.
\<close>

definition godotenv_load :: "world \<Rightarrow> go_error option \<times> world" where
  "godotenv_load w =
     (case dotenv w of
        Dotenv_Missing \<Rightarrow> (Some (Env_File_Error ''open .env: no such file or directory''), w)
      | Dotenv_Unreadable msg \<Rightarrow> (Some (Env_File_Error msg), w)
      | Dotenv_File kvs \<Rightarrow> (None, w\<lparr>env := map_of (rev kvs) ++ env w\<rparr>))"

section \<open>main\<close>

text \<open>
  \<open>main\<close>, with the visit order of the map as a parameter. The two \<open>defer\<close>red
  calls run at the end, the later one first.
\<close>

definition main_go :: "(string \<times> coord) list \<Rightarrow> world \<Rightarrow> world" where
  "main_go order w0 =
     (let w1 = (case godotenv_load w0 of
                  (Some err, w) \<Rightarrow> slog Level_Error ''Error loading .env file'' [(''error'', Err_Value err)] w
                | (None, w) \<Rightarrow> slog Level_Info ''.env file loaded successfully'' [] w);
          w2 = slog Level_Info ''Application started'' [] w1;
          apiKey = getenv w2 ''API_KEY'';
          w3 = range_cities apiKey order w2;
          w4 = slog Level_Info ''Application stopped'' [] w3
      in w4\<lparr>out := out w4 @ [Print_Line (''Execution time: '' @ elapsed w4 @ [CHR 0x0A])]\<rparr>)"

text \<open>The runs of the program: \<open>main\<close> with any order of the map's entries.\<close>

inductive main_run :: "world \<Rightarrow> world \<Rightarrow> bool" where
  run: "mset order = mset cities \<Longrightarrow> main_run w (main_go order w)"

section \<open>What one visit prints\<close>

text \<open>
  The lines one visit of the loop adds, as a function of the city and the service's
  answers only: the URL requested, the outcome of the fetch, the fetcher's own error
  line if any, then the driver's outcome line.
\<close>

definition city_url :: "string \<Rightarrow> string \<times> coord \<Rightarrow> string" where
  "city_url apiKey c = weather_url (fst (snd c)) (snd (snd c)) apiKey"

definition fetch_outcome :: "(string \<Rightarrow> http_result) \<Rightarrow> string \<Rightarrow> string \<times> coord \<Rightarrow> go_error + temperature" where
  "fetch_outcome n apiKey c =
     (case n (city_url apiKey c) of
        Transport_Failure msg \<Rightarrow> Inl (Http_Error msg)
      | Http_Response status b \<Rightarrow>
          (case json_decode b of Inl e \<Rightarrow> Inl (Json_Error e) | Inr r \<Rightarrow> Inr (Main r)))"

definition fetch_error_line :: "go_error \<Rightarrow> out_line" where
  "fetch_error_line e =
     Log_Line Level_Error
       (case e of Http_Error _ \<Rightarrow> ''Error making HTTP request'' | _ \<Rightarrow> ''Error decoding JSON response'')
       [(''error'', Err_Value e)]"

definition outcome_line :: "string \<Rightarrow> go_error + temperature \<Rightarrow> out_line" where
  "outcome_line cityName r =
     (case r of
        Inl err \<Rightarrow> Log_Line Level_Error ''Failed to fetch weather data''
                    [(''error'', Err_Value err), (''city'', Str_Value cityName)]
      | Inr t \<Rightarrow> Log_Line Level_Info ''Fetched weather data successfully''
                    [(''city'', Str_Value cityName),
                     (temperature_key, Float_Value (round_go (Temp t - 27315 / 100) 2 ''round''))])"

definition city_lines :: "(string \<Rightarrow> http_result) \<Rightarrow> string \<Rightarrow> string \<times> coord \<Rightarrow> out_line list" where
  "city_lines n apiKey c =
     (let r = fetch_outcome n apiKey c in
      (case r of Inl e \<Rightarrow> [fetch_error_line e] | Inr _ \<Rightarrow> []) @ [outcome_line (fst c) r])"

text \<open>Reading an outcome line back: success or failure, and the city it names.\<close>

fun line_outcome :: "out_line \<Rightarrow> (bool \<times> string) option" where
  "line_outcome (Log_Line lvl msg attrs) =
     (if lvl = Level_Info \<and> msg = ''Fetched weather data successfully''
      then (case attrs of (_, Str_Value n) # _ \<Rightarrow> Some (True, n) | _ \<Rightarrow> None)
      else if lvl = Level_Error \<and> msg = ''Failed to fetch weather data''
      then (case attrs of [_, (_, Str_Value n)] \<Rightarrow> Some (False, n) | _ \<Rightarrow> None)
      else None)"
| "line_outcome (Print_Line _) = None"

fun line_level :: "out_line \<Rightarrow> log_level option" where
  "line_level (Log_Line lvl _ _) = Some lvl"
| "line_level (Print_Line _) = None"

text \<open>The first line \<open>main\<close> prints, and the API key it then reads.\<close>

definition env_line :: "world \<Rightarrow> out_line" where
  "env_line w0 =
     (case fst (godotenv_load w0) of
        Some err \<Rightarrow> Log_Line Level_Error ''Error loading .env file'' [(''error'', Err_Value err)]
      | None \<Rightarrow> Log_Line Level_Info ''.env file loaded successfully'' [])"

definition main_api_key :: "world \<Rightarrow> string" where
  "main_api_key w0 = getenv (snd (godotenv_load w0)) ''API_KEY''"

text \<open>
  Example worlds for the witnesses: the service answers 300 K for Colombo and
  times out for every other city; \<open>API_KEY\<close> is set and there is no \<open>.env\<close>.
\<close>

definition sample_net :: "string \<Rightarrow> http_result" where
  "sample_net u =
     (if u = weather_url ''6.9271'' ''79.8612'' ''k''
      then Http_Response 200 (Json_Body (JObject [(''main'', JObject [(''temp'', JNumber 300)])]))
      else Transport_Failure ''i/o timeout'')"

definition sample_start :: world where
  "sample_start = process_start sample_net [''API_KEY'' \<mapsto> ''k''] Dotenv_Missing ''1s''"

declare cities_def [go_eval] temperature_key_def [go_eval] godotenv_load_def [go_eval]
  main_go_def [go_eval]

section \<open>The loop\<close>

lemma visit_city_world:
  "visit_city apiKey w c =
     w\<lparr>out := out w @ city_lines (net w) apiKey c, requests := requests w @ [city_url apiKey c]\<rparr>"
proof -
  obtain nm la lo where c: "c = (nm, (la, lo))" by (cases c) auto
  obtain res w1 where f: "fetchWeatherData la lo apiKey w = (res, w1)" by fastforce
  have res: "fetch_outcome (net w) apiKey (nm, la, lo) = res"
    using fetchWeatherData_result [of la lo apiKey w]
    by (simp add: f c fetch_outcome_def city_url_def)
  have w1: "w1 = w\<lparr>out := out w @ (case res of Inl e \<Rightarrow> [fetch_error_line e] | Inr _ \<Rightarrow> []),
                    requests := requests w @ [city_url apiKey c]\<rparr>"
    using fetchWeatherData_world [of la lo apiKey w]
    by (simp add: f c city_url_def fetch_error_line_def split: sum.split)
  show ?thesis
    by (cases res) (simp_all add: c f w1 res city_lines_def outcome_line_def slog_def Let_def)
qed

lemma range_cities_world:
  "range_cities apiKey order w =
     w\<lparr>out := out w @ concat (map (city_lines (net w) apiKey) order),
       requests := requests w @ map (city_url apiKey) order\<rparr>"
  by (induction order arbitrary: w) (simp_all add: visit_city_world)

lemma godotenv_load_fields [simp]:
  "net (snd (godotenv_load w)) = net w" "out (snd (godotenv_load w)) = out w"
  "requests (snd (godotenv_load w)) = requests w" "elapsed (snd (godotenv_load w)) = elapsed w"
  "open_bodies (snd (godotenv_load w)) = open_bodies w" "dotenv (snd (godotenv_load w)) = dotenv w"
  by (simp_all add: godotenv_load_def split: dotenv_file.split)

lemma main_go_world:
  "main_go order w0 =
     (snd (godotenv_load w0))
       \<lparr>out := out w0 @ [env_line w0, Log_Line Level_Info ''Application started'' []]
                @ concat (map (city_lines (net w0) (main_api_key w0)) order)
                @ [Log_Line Level_Info ''Application stopped'' [],
                   Print_Line (''Execution time: '' @ elapsed w0 @ [CHR 0x0A])],
        requests := requests w0 @ map (city_url (main_api_key w0)) order\<rparr>"
proof -
  obtain e w1 where g: "godotenv_load w0 = (e, w1)" by fastforce
  have f: "net w1 = net w0" "out w1 = out w0" "requests w1 = requests w0" "elapsed w1 = elapsed w0"
    using godotenv_load_fields [of w0] g by simp_all
  show ?thesis
    by (cases e) (simp_all add: main_go_def g f range_cities_world env_line_def main_api_key_def
        getenv_def slog_def Let_def)
qed


lemma main_run_cases:
  "main_run w0 w \<Longrightarrow> \<exists>order. mset order = mset cities \<and> w = main_go order w0"
  by (auto elim: main_run.cases)

lemma city_lines_outcomes:
  "map line_outcome (city_lines n apiKey c) =
     (if isl (fetch_outcome n apiKey c) then [None] else [])
     @ [Some (\<not> isl (fetch_outcome n apiKey c), fst c)]"
  by (cases "fetch_outcome n apiKey c")
     (simp_all add: city_lines_def fetch_error_line_def outcome_line_def split: go_error.split)

lemma city_lines_count_kind:
  "length (filter (\<lambda>l. map_option fst (line_outcome l) = Some b) (city_lines n apiKey c))
   = (if b = (\<not> isl (fetch_outcome n apiKey c)) then 1 else 0)"
  unfolding length_filter_comp [of "\<lambda>x. map_option fst x = Some b" line_outcome] city_lines_outcomes by simp

lemma city_lines_count_city:
  "length (filter (\<lambda>l. map_option snd (line_outcome l) = Some nm) (city_lines n apiKey c))
   = (if fst c = nm then 1 else 0)"
  unfolding length_filter_comp [of "\<lambda>x. map_option snd x = Some nm" line_outcome] city_lines_outcomes by simp

lemma city_lines_count_error:
  "length (filter (\<lambda>l. line_level l = Some Level_Error) (city_lines n apiKey c))
   = (if isl (fetch_outcome n apiKey c) then 2 else 0)"
  by (cases "fetch_outcome n apiKey c")
     (simp_all add: city_lines_def fetch_error_line_def outcome_line_def)

lemma main_go_count:
  assumes "\<not> P (Log_Line Level_Info ''Application started'' [])"
    and "\<not> P (Log_Line Level_Info ''Application stopped'' [])"
    and "\<And>s. \<not> P (Print_Line s)"
  shows "length (filter P (out (main_go order w0)))
    = length (filter P (out w0 @ [env_line w0]))
      + (\<Sum>c\<leftarrow>order. length (filter P (city_lines (net w0) (main_api_key w0) c)))"
  using assms by (simp add: main_go_world length_filter_concat_map)

text \<open>C1: a run whose output starts empty prints exactly one success line per city whose fetch succeeds and exactly one failure line per city whose fetch fails (N - M and M lines); no failure stops the loop.\<close>

lemma main_run_outcome_counts:
  "out w0 = [] \<Longrightarrow> main_run w0 w \<Longrightarrow>
   length (filter (\<lambda>l. map_option fst (line_outcome l) = Some True) (out w))
     = length (filter (\<lambda>c. \<not> isl (fetch_outcome (net w0) (main_api_key w0) c)) cities)
   \<and> length (filter (\<lambda>l. map_option fst (line_outcome l) = Some False) (out w))
     = length (filter (\<lambda>c. isl (fetch_outcome (net w0) (main_api_key w0) c)) cities)"
proof -
  assume o: "out w0 = []" and r: "main_run w0 w"
  from main_run_cases [OF r] obtain order where
    p: "mset order = mset cities" and w: "w = main_go order w0" by blast
  have "length (filter (\<lambda>l. map_option fst (line_outcome l) = Some b) (out w))
        = length (filter (\<lambda>c. b = (\<not> isl (fetch_outcome (net w0) (main_api_key w0) c))) order)" for b
  proof -
    have "length (filter (\<lambda>l. map_option fst (line_outcome l) = Some b) (out w))
      = length (filter (\<lambda>l. map_option fst (line_outcome l) = Some b) (out w0 @ [env_line w0]))
        + (\<Sum>c\<leftarrow>order. length (filter (\<lambda>l. map_option fst (line_outcome l) = Some b)
             (city_lines (net w0) (main_api_key w0) c)))"
      unfolding w by (rule main_go_count) simp_all
    also have "\<dots> = (\<Sum>c\<leftarrow>order. if b = (\<not> isl (fetch_outcome (net w0) (main_api_key w0) c)) then 1 else 0)"
      by (simp only: city_lines_count_kind) (simp add: o env_line_def split: option.split)
    finally show ?thesis by (simp add: sum_list_indicator)
  qed
  from this [of True] this [of False] show ?thesis by (simp add: length_filter_mset_eq [OF p])
qed




text \<open>C11: two runs from the same world differ only in the order of their output lines and of their requests: the map order changes nothing else.\<close>

lemma main_run_order_independent:
  "main_run w0 w1 \<Longrightarrow> main_run w0 w2 \<Longrightarrow>
   mset (out w1) = mset (out w2) \<and> mset (requests w1) = mset (requests w2)
   \<and> w1\<lparr>out := [], requests := []\<rparr> = w2\<lparr>out := [], requests := []\<rparr>"
proof -
  assume "main_run w0 w1" "main_run w0 w2"
  then obtain o1 o2 where p: "mset o1 = mset cities" "mset o2 = mset cities"
    and w: "w1 = main_go o1 w0" "w2 = main_go o2 w0"
    by (blast dest: main_run_cases)
  let ?f = "city_lines (net w0) (main_api_key w0)" and ?u = "city_url (main_api_key w0)"
  have c: "mset (concat (map ?f o1)) = mset (concat (map ?f o2))"
    by (rule mset_concat_map_perm) (simp add: p)
  have u: "mset (map ?u o1) = mset (map ?u o2)" by (simp add: p)
  show ?thesis
  proof (intro conjI)
    show "mset (out w1) = mset (out w2)" using c by (simp add: w main_go_world)
    show "mset (requests w1) = mset (requests w2)" using u by (simp add: w main_go_world)
    show "w1\<lparr>out := [], requests := []\<rparr> = w2\<lparr>out := [], requests := []\<rparr>"
      by (simp add: w main_go_world)
  qed
qed

text \<open>C13: a run requests the weather URL of every city of the registry exactly once, with the API key main read, and leaves no response body open.\<close>

lemma main_run_requests:
  "main_run w0 w \<Longrightarrow>
   mset (requests w) = mset (requests w0) + mset (map (city_url (main_api_key w0)) cities)
   \<and> open_bodies w = open_bodies w0"
  by (auto dest!: main_run_cases simp: main_go_world)

text \<open>C14: in the output of a run, every city of the registry is named by exactly one outcome line.\<close>

lemma main_run_city_once:
  "out w0 = [] \<Longrightarrow> main_run w0 w \<Longrightarrow> nm \<in> set (map fst cities) \<Longrightarrow>
   length (filter (\<lambda>l. map_option snd (line_outcome l) = Some nm) (out w)) = 1"
proof -
  assume o: "out w0 = []" and r: "main_run w0 w" and nm: "nm \<in> set (map fst cities)"
  from main_run_cases [OF r] obtain order where
    p: "mset order = mset cities" and w: "w = main_go order w0" by blast
  have "length (filter (\<lambda>l. map_option snd (line_outcome l) = Some nm) (out w))
      = length (filter (\<lambda>l. map_option snd (line_outcome l) = Some nm) (out w0 @ [env_line w0]))
        + (\<Sum>c\<leftarrow>order. length (filter (\<lambda>l. map_option snd (line_outcome l) = Some nm)
             (city_lines (net w0) (main_api_key w0) c)))"
    unfolding w by (rule main_go_count) simp_all
  also have "\<dots> = (\<Sum>c\<leftarrow>order. if fst c = nm then 1 else 0)"
    by (simp only: city_lines_count_city) (simp add: o env_line_def split: option.split)
  also have "\<dots> = length (filter (\<lambda>c. fst c = nm) cities)"
    by (simp add: sum_list_indicator length_filter_mset_eq [OF p])
  also have "\<dots> = 1" using nm by (auto simp: cities_def)
  finally show ?thesis .
qed

text \<open>C15: a run prints two error lines for every city whose fetch fails (the fetcher's and the driver's), plus one when .env cannot be loaded: not one error line per failed city.\<close>

lemma main_run_error_lines:
  "out w0 = [] \<Longrightarrow> main_run w0 w \<Longrightarrow>
   length (filter (\<lambda>l. line_level l = Some Level_Error) (out w))
     = 2 * length (filter (\<lambda>c. isl (fetch_outcome (net w0) (main_api_key w0) c)) cities)
       + (case dotenv w0 of Dotenv_File _ \<Rightarrow> 0 | _ \<Rightarrow> 1)"
proof -
  assume o: "out w0 = []" and r: "main_run w0 w"
  from main_run_cases [OF r] obtain order where
    p: "mset order = mset cities" and w: "w = main_go order w0" by blast
  have "length (filter (\<lambda>l. line_level l = Some Level_Error) (out w))
      = length (filter (\<lambda>l. line_level l = Some Level_Error) (out w0 @ [env_line w0]))
        + (\<Sum>c\<leftarrow>order. length (filter (\<lambda>l. line_level l = Some Level_Error)
             (city_lines (net w0) (main_api_key w0) c)))"
    unfolding w by (rule main_go_count) simp_all
  also have "\<dots> = (case dotenv w0 of Dotenv_File _ \<Rightarrow> 0 | _ \<Rightarrow> 1)
      + (\<Sum>c\<leftarrow>order. if isl (fetch_outcome (net w0) (main_api_key w0) c) then 2 else 0)"
    by (simp only: city_lines_count_error)
       (simp add: o env_line_def godotenv_load_def split: dotenv_file.split)
  finally show ?thesis by (simp add: sum_list_indicator length_filter_mset_eq [OF p])
qed

text \<open>The key \<open>main\<close> reads: the environment first, then the last assignment of a readable \<open>.env\<close>.\<close>

lemma main_api_key_env_first:
  "main_api_key w0 =
     (case env w0 ''API_KEY'' of
        Some v \<Rightarrow> v
      | None \<Rightarrow> (case dotenv w0 of
                   Dotenv_File kvs \<Rightarrow> (case map_of (rev kvs) ''API_KEY'' of Some v \<Rightarrow> v | None \<Rightarrow> [])
                 | _ \<Rightarrow> []))"
  by (simp add: main_api_key_def godotenv_load_def getenv_def map_add_def
      split: dotenv_file.split option.split)

text \<open>C16: every run of main requests each city with the API key taken from the environment variable API_KEY if it is set, else from the last API_KEY assignment of a readable .env file, else the empty string: the key is read after the .env file is loaded.\<close>

lemma main_run_api_key:
  "main_run w0 w \<Longrightarrow>
   mset (requests w) = mset (requests w0) + mset (map (city_url
     (case env w0 ''API_KEY'' of
        Some v \<Rightarrow> v
      | None \<Rightarrow> (case dotenv w0 of
                   Dotenv_File kvs \<Rightarrow> (case map_of (rev kvs) ''API_KEY'' of Some v \<Rightarrow> v | None \<Rightarrow> [])
                 | _ \<Rightarrow> []))) cities)"
  by (auto dest!: main_run_cases simp: main_go_world main_api_key_env_first [symmetric])

text \<open>C17: without a .env file the run still goes on: it logs the load error first and requests every city with the API key of the environment.\<close>

lemma main_run_missing_dotenv:
  "dotenv w0 = Dotenv_Missing \<Longrightarrow> env w0 ''API_KEY'' = Some k \<Longrightarrow> main_run w0 w \<Longrightarrow>
   out w ! length (out w0) = Log_Line Level_Error ''Error loading .env file''
     [(''error'', Err_Value (Env_File_Error ''open .env: no such file or directory''))]
   \<and> mset (requests w) = mset (requests w0) + mset (map (city_url k) cities)"
  by (auto dest!: main_run_cases
      simp: main_go_world env_line_def godotenv_load_def main_api_key_def getenv_def nth_append)

lemma main_run_city_line:
  "main_run w0 w \<Longrightarrow> c \<in> set cities \<Longrightarrow>
   outcome_line (fst c) (fetch_outcome (net w0) (main_api_key w0) c) \<in> set (out w)"
proof -
  assume r: "main_run w0 w" and c: "c \<in> set cities"
  from main_run_cases [OF r] obtain order where
    p: "mset order = mset cities" and w: "w = main_go order w0" by blast
  from p c have "c \<in> set order" by (metis set_mset_mset)
  then show ?thesis by (auto simp: w main_go_world city_lines_def Let_def)
qed


section \<open>Witnesses\<close>

text \<open>
  The claims above applied to the run of \<open>main\<close> on \<open>sample_start\<close> that visits the
  cities in reverse insertion order: one success (Colombo), three failures.
\<close>

lemma sample_run: "main_run sample_start (main_go (rev cities) sample_start)"
  by (rule main_run.run) simp

lemma sample_key: "main_api_key sample_start = ''k''"
  by (simp add: main_api_key_def godotenv_load_def getenv_def sample_start_def process_start_def)

lemma sample_outcomes:
  "map (fetch_outcome sample_net ''k'') cities =
     [Inr \<lparr>Temp = 300\<rparr>, Inl (Http_Error ''i/o timeout''), Inl (Http_Error ''i/o timeout''),
      Inl (Http_Error ''i/o timeout'')]"
  by (simp add: cities_def fetch_outcome_def city_url_def sample_net_def weather_url_def
      json_decode_def key_matches_def weather_zero_def)

lemma main_run_outcome_counts_witness:
  "length (filter (\<lambda>l. map_option fst (line_outcome l) = Some True) (out (main_go (rev cities) sample_start))) = 1
   \<and> length (filter (\<lambda>l. map_option fst (line_outcome l) = Some False) (out (main_go (rev cities) sample_start))) = 3"
proof -
  have o: "out sample_start = []" by (simp add: sample_start_def process_start_def)
  have n: "net sample_start = sample_net" by (simp add: sample_start_def process_start_def)
  have f: "length (filter (\<lambda>c. \<not> isl (fetch_outcome sample_net ''k'' c)) cities) = 1"
          "length (filter (\<lambda>c. isl (fetch_outcome sample_net ''k'' c)) cities) = 3"
    using sample_outcomes by (simp_all add: cities_def)
  show ?thesis
    using main_run_outcome_counts [OF o sample_run] f by (simp add: n sample_key)
qed


lemma sample_fields:
  "out sample_start = []" "net sample_start = sample_net" "requests sample_start = []"
  "open_bodies sample_start = 0" "elapsed sample_start = ''1s''" "dotenv sample_start = Dotenv_Missing"
  "env sample_start ''API_KEY'' = Some ''k''"
  by (simp_all add: sample_start_def process_start_def)


lemma main_run_order_independent_witness:
  "mset (out (main_go (rev cities) sample_start)) = mset (out (main_go cities sample_start))
   \<and> mset (requests (main_go (rev cities) sample_start)) = mset (requests (main_go cities sample_start))
   \<and> (main_go (rev cities) sample_start)\<lparr>out := [], requests := []\<rparr>
     = (main_go cities sample_start)\<lparr>out := [], requests := []\<rparr>"
  using main_run_order_independent [OF sample_run main_run.run [of cities sample_start]] by simp

lemma main_run_requests_witness:
  "mset (requests (main_go (rev cities) sample_start)) = mset (map (city_url ''k'') cities)
   \<and> open_bodies (main_go (rev cities) sample_start) = 0"
  using main_run_requests [OF sample_run] by (simp add: sample_fields sample_key)

lemma main_run_city_once_witness:
  "length (filter (\<lambda>l. map_option snd (line_outcome l) = Some ''Tokyo'')
     (out (main_go (rev cities) sample_start))) = 1"
  using main_run_city_once [OF sample_fields(1) sample_run, of "''Tokyo''"]
  by (simp add: cities_def)

lemma main_run_error_lines_witness:
  "length (filter (\<lambda>l. line_level l = Some Level_Error) (out (main_go (rev cities) sample_start))) = 7"
proof -
  have f: "length (filter (\<lambda>c. isl (fetch_outcome sample_net ''k'' c)) cities) = 3"
    using sample_outcomes by (simp add: cities_def)
  show ?thesis
    using main_run_error_lines [OF sample_fields(1) sample_run] f
    by (simp add: sample_fields sample_key)
qed

text \<open>A \<open>.env\<close> file assigns \<open>API_KEY\<close> twice and the environment has none: the last assignment is used.\<close>

lemma main_run_api_key_witness:
  "mset (requests (main_go cities (process_start sample_net Map.empty
      (Dotenv_File [(''API_KEY'', ''old''), (''API_KEY'', ''k'')]) ''1s'')))
   = mset (map (city_url ''k'') cities)"
  using main_run_api_key [OF main_run.run [of cities "process_start sample_net Map.empty
      (Dotenv_File [(''API_KEY'', ''old''), (''API_KEY'', ''k'')]) ''1s''"]]
  by (simp add: process_start_def)

lemma main_run_missing_dotenv_witness:
  "out (main_go (rev cities) sample_start) ! 0 = Log_Line Level_Error ''Error loading .env file''
     [(''error'', Err_Value (Env_File_Error ''open .env: no such file or directory''))]
   \<and> mset (requests (main_go (rev cities) sample_start)) = mset (map (city_url ''k'') cities)"
  using main_run_missing_dotenv [OF sample_fields(6) sample_fields(7) sample_run]
  by (simp add: sample_fields)

end
