(* ===== verification/Float64.thy ===== *)
theory Float64
  imports Round "HOL-Library.Log_Nat"
begin

text \<open>
  A binary64 model of the arithmetic in \<open>src/main.go\<close>: the conversion
  \<open>tempC := temperature.Temp - 273.15\<close> (line 77) and the helper \<open>round\<close>
  (lines 84--94), where every \<open>float64\<close> multiplication, subtraction and
  division rounds its exact result to the nearest double, ties to even (IEEE 754
  \<open>roundTiesToEven\<close>, which Go uses), with subnormal numbers and overflow to
  infinity. \<open>Round\<close> and \<open>Driver\<close> compute the same expressions on exact
  reals; \<open>round64_refines_round_go\<close> states when the two agree, and the lemmas
  at the end show where they do not (\<open>1.005\<close>, \<open>273.155\<close>, \<open>0.29\<close>).

  A finite double is kept as its real value, and \<open>fl\<close> rounds a real number
  to binary64: the value is scaled by \<open>2^ulp_exp x\<close>, the weight of the last of the
  53 significant bits (at least \<open>2^-1074\<close>, the subnormal spacing), rounded to an
  integer by \<open>round_even\<close>, and scaled back; a result of magnitude \<open>2^1024\<close> or
  more is an infinity, which is the overflow threshold of IEEE 754. \<open>bexp\<close>
  computes the binary exponent with \<open>bitlen\<close>, so every definition evaluates.
  \<open>math.Round\<close>, \<open>math.Ceil\<close> and \<open>math.Floor\<close> are exact on doubles (their
  integer results are doubles), so the functions of theory \<open>Round\<close> serve as they
  are. \<open>math.Pow(10, d)\<close> is exact for \<open>0 \<le> d \<le> 22\<close> (every partial product of
  Go's square-and-multiply loop is a double); outside that range \<open>pow10_64\<close>
  returns \<open>None\<close>, not modelled. The program calls \<open>round\<close> with \<open>d = 2\<close> only.
\<close>

section \<open>Binary64 values and rounding\<close>

text \<open>A \<open>float64\<close>: finite (its value), or an infinity. No operation of the program produces a NaN from the inputs it receives.\<close>

datatype f64 = Fin float64 | Pos_Inf | Neg_Inf

text \<open>The binary exponent of a positive real \<open>a\<close>: the \<open>e\<close> with \<open>2^e \<le> a < 2^(e+1)\<close>.\<close>

definition bexp :: "real \<Rightarrow> int" where
  "bexp a = (if 1 \<le> a then bitlen \<lfloor>a\<rfloor> - 1 else - bitlen (\<lceil>1 / a\<rceil> - 1))"

text \<open>The exponent of the last significant bit of the double nearest to \<open>x\<close>: 52 bits below the leading one, and not below the subnormal spacing \<open>2^-1074\<close>.\<close>

definition ulp_exp :: "real \<Rightarrow> int" where
  "ulp_exp x = max (bexp \<bar>x\<bar> - 52) (- 1074)"

text \<open>Rounding to an integer, a tie going to the even neighbour.\<close>

definition round_even :: "real \<Rightarrow> int" where
  "round_even y =
     (let n = \<lfloor>y\<rfloor>; f = y - of_int n in
      if f < 1 / 2 then n else if 1 / 2 < f then n + 1 else if even n then n else n + 1)"

text \<open>Rounding a real to binary64 precision, without the exponent bound.\<close>

definition fl_val :: "real \<Rightarrow> real" where
  "fl_val x =
     (if x = 0 then 0
      else of_int (round_even (x / power_int 2 (ulp_exp x))) * power_int 2 (ulp_exp x))"

text \<open>Rounding a real to a \<open>float64\<close>: the nearest double, ties to even, or an infinity when the rounded magnitude reaches \<open>2^1024\<close>.\<close>

definition fl :: "real \<Rightarrow> f64" where
  "fl x =
     (let y = fl_val x in
      if 2 ^ 1024 \<le> y then Pos_Inf else if y \<le> - (2 ^ 1024) then Neg_Inf else Fin y)"

text \<open>Negation of a \<open>float64\<close>, exact.\<close>

definition f64_neg :: "f64 \<Rightarrow> f64" where
  "f64_neg x = (case x of Fin v \<Rightarrow> Fin (- v) | Pos_Inf \<Rightarrow> Neg_Inf | Neg_Inf \<Rightarrow> Pos_Inf)"

section \<open>The program's arithmetic\<close>

text \<open>\<open>math.Pow(10, float64(decimals))\<close>, in the range where it is modelled.\<close>

definition pow10_64 :: "int \<Rightarrow> float64 option" where
  "pow10_64 d = (if 0 \<le> d \<and> d \<le> 22 then Some (10 ^ nat d) else None)"

text \<open>
  \<open>round(val, decimals, mode)\<close> on doubles: \<open>val*mult\<close> is rounded, \<open>math.Round\<close>,
  \<open>Ceil\<close> or \<open>Floor\<close> is exact, and the quotient by \<open>mult\<close> is rounded; an infinite
  product stays infinite through both.
\<close>

definition round64 :: "f64 \<Rightarrow> int \<Rightarrow> string \<Rightarrow> f64 option" where
  "round64 val decimals mode =
     (case pow10_64 decimals of
        None \<Rightarrow> None
      | Some m \<Rightarrow> Some
          (case val of
             Fin v \<Rightarrow>
               (case fl (v * m) of
                  Fin p \<Rightarrow>
                    fl ((if mode = ''ceil'' then math_ceil p
                         else if mode = ''floor'' then math_floor p
                         else math_round p) / m)
                | infinity \<Rightarrow> infinity)
           | infinity \<Rightarrow> infinity))"

text \<open>The constant \<open>273.15\<close> as a \<open>float64\<close>.\<close>

definition kelvin_offset64 :: float64 where
  "kelvin_offset64 = fl_val (27315 / 100)"

text \<open>Lines 77--79: \<open>round(temperature.Temp - 273.15, 2, "round")\<close>.\<close>

definition celsius64 :: "float64 \<Rightarrow> f64 option" where
  "celsius64 temp = round64 (fl (temp - kelvin_offset64)) 2 ''round''"

section \<open>Rounding to binary64\<close>

text \<open>The exponent and the ulp of a real number.\<close>

lemma bitlen_bounds_real:
  assumes "0 < n"
  shows "power_int 2 (bitlen n - 1) \<le> (of_int n :: real)" "of_int n < power_int (2 :: real) (bitlen n)"
proof -
  from assms have b: "1 \<le> bitlen n" by (simp add: bitlen_alt_def)
  from bitlen_bounds [OF assms] have "2 ^ nat (bitlen n - 1) \<le> n" "n < 2 ^ nat (bitlen n)" by auto
  then have "(2 :: real) ^ nat (bitlen n - 1) \<le> of_int n" "of_int n < (2 :: real) ^ nat (bitlen n)"
    by (metis of_int_le_iff of_int_numeral of_int_power, metis of_int_less_iff of_int_numeral of_int_power)
  with b show "power_int 2 (bitlen n - 1) \<le> (of_int n :: real)" "of_int n < power_int (2 :: real) (bitlen n)"
    by (simp_all add: power_int_def)
qed

lemma bexp_bounds:
  assumes "0 < a"
  shows "power_int 2 (bexp a) \<le> a" "a < power_int 2 (bexp a + 1)"
proof -
  have "power_int 2 (bexp a) \<le> a \<and> a < power_int 2 (bexp a + 1)"
  proof (cases "1 \<le> a")
    case True
    then have n: "0 < \<lfloor>a\<rfloor>" by simp
    have "of_int \<lfloor>a\<rfloor> \<le> a" "a < of_int \<lfloor>a\<rfloor> + 1" by linarith+
    moreover have "of_int \<lfloor>a\<rfloor> + 1 \<le> power_int (2 :: real) (bitlen \<lfloor>a\<rfloor>)"
    proof -
      have "\<lfloor>a\<rfloor> < 2 ^ nat (bitlen \<lfloor>a\<rfloor>)" using bitlen_bounds [OF n] by simp
      then have "\<lfloor>a\<rfloor> + 1 \<le> 2 ^ nat (bitlen \<lfloor>a\<rfloor>)" by simp
      then have "of_int (\<lfloor>a\<rfloor> + 1) \<le> (of_int (2 ^ nat (bitlen \<lfloor>a\<rfloor>)) :: real)" by (rule of_int_le_iff [THEN iffD2])
      then show ?thesis using bitlen_nonneg [of "\<lfloor>a\<rfloor>"] by (simp add: power_int_def)
    qed
    ultimately show ?thesis using True bitlen_bounds_real [OF n] by (simp add: bexp_def) linarith
  next
    case False
    with assms have z: "1 < 1 / a" by simp
    define c where "c = \<lceil>1 / a\<rceil>"
    have c1: "1 / a \<le> of_int c" "of_int c - 1 < 1 / a" unfolding c_def by linarith+
    then have cpos: "0 < c - 1" using z by linarith
    define k where "k = bitlen (c - 1)"
    have lo: "power_int 2 (k - 1) \<le> (of_int (c - 1) :: real)" and hi: "of_int (c - 1) < power_int (2 :: real) k"
      using bitlen_bounds_real [OF cpos] by (simp_all add: k_def)
    have k1: "1 \<le> k" using cpos by (simp add: k_def bitlen_alt_def)
    have "of_int c \<le> power_int (2 :: real) k"
    proof -
      have "c - 1 < 2 ^ nat k" using bitlen_bounds [OF cpos] by (simp add: k_def)
      then have "c \<le> 2 ^ nat k" by simp
      then have "(of_int c :: real) \<le> of_int (2 ^ nat k)" by (rule of_int_le_iff [THEN iffD2])
      then show ?thesis using k1 by (simp add: power_int_def)
    qed
    with c1 have "1 / a \<le> power_int 2 k" by linarith
    then have "power_int 2 (- k) \<le> a" using assms by (simp add: power_int_minus field_simps)
    moreover have "power_int 2 (k - 1) < 1 / a" using lo c1 by linarith
    then have "a < power_int 2 (- k + 1)"
      using assms by (simp add: power_int_minus power_int_diff power_int_add field_simps)
    ultimately show ?thesis using False by (simp add: bexp_def k_def c_def)
  qed
  then show "power_int 2 (bexp a) \<le> a" "a < power_int 2 (bexp a + 1)" by simp_all
qed

text \<open>The error of rounding: half an ulp, so at most \<open>2^-53\<close> relative to the value plus half the subnormal spacing.\<close>

lemma round_even_dist: "\<bar>of_int (round_even y) - y\<bar> \<le> 1 / 2"
proof -
  have "of_int \<lfloor>y\<rfloor> \<le> y" "y < of_int \<lfloor>y\<rfloor> + 1" by linarith+
  then show ?thesis by (simp add: round_even_def Let_def abs_le_iff)
qed

lemma fl_val_dist_ulp: "\<bar>fl_val x - x\<bar> \<le> power_int 2 (ulp_exp x) / 2"
proof (cases "x = 0")
  case False
  let ?P = "power_int (2 :: real) (ulp_exp x)"
  have P: "0 < ?P" by simp
  have "fl_val x - x = (of_int (round_even (x / ?P)) - x / ?P) * ?P"
    using False P by (simp add: fl_val_def algebra_simps)
  then have "\<bar>fl_val x - x\<bar> = \<bar>of_int (round_even (x / ?P)) - x / ?P\<bar> * ?P"
    using P by (simp add: abs_mult)
  also have "\<dots> \<le> 1 / 2 * ?P" by (intro mult_right_mono round_even_dist) simp
  finally show ?thesis by simp
qed (simp add: fl_val_def)

lemma ulp_half_le: "x \<noteq> 0 \<Longrightarrow> power_int 2 (ulp_exp x) / 2 \<le> \<bar>x\<bar> / 2 ^ 53 + 1 / 2 ^ 1075"
proof -
  assume x: "x \<noteq> 0"
  show ?thesis
  proof (cases "- 1074 \<le> bexp \<bar>x\<bar> - 52")
    case True
    then have u: "ulp_exp x = bexp \<bar>x\<bar> - 52" by (simp add: ulp_exp_def)
    have "power_int (2 :: real) (bexp \<bar>x\<bar> - 52) / 2 = power_int 2 (bexp \<bar>x\<bar>) / 2 ^ 53"
      by (simp add: power_int_diff)
    also have "\<dots> \<le> \<bar>x\<bar> / 2 ^ 53" using bexp_bounds(1) [of "\<bar>x\<bar>"] x by (simp add: divide_right_mono)
    finally show ?thesis using u by simp
  next
    case False
    then have "ulp_exp x = - 1074" by (simp add: ulp_exp_def)
    then show ?thesis by (simp add: power_int_minus)
  qed
qed

lemma fl_val_error: "\<bar>fl_val x - x\<bar> \<le> \<bar>x\<bar> / 2 ^ 53 + 1 / 2 ^ 1075"
  using fl_val_dist_ulp [of x] ulp_half_le [of x] by (cases "x = 0") (simp_all add: fl_val_def)

lemma fl_finite: "\<bar>x\<bar> \<le> 2 ^ 1023 \<Longrightarrow> fl x = Fin (fl_val x)"
proof -
  assume x: "\<bar>x\<bar> \<le> 2 ^ 1023"
  have "\<bar>fl_val x - x\<bar> \<le> \<bar>x\<bar> / 2 ^ 53 + 1 / 2 ^ 1075" by (rule fl_val_error)
  with x have "\<bar>fl_val x\<bar> < 2 ^ 1024" by (simp add: abs_le_iff abs_less_iff) linarith
  then show ?thesis by (simp add: fl_def Let_def abs_less_iff)
qed

lemma fl_val_error_div:
  assumes "1 \<le> m"
  shows "\<bar>fl_val (v * m) / m - v\<bar> \<le> \<bar>v\<bar> / 2 ^ 53 + 1 / 2 ^ 1075"
proof -
  have m: "0 < m" using assms by simp
  have "fl_val (v * m) / m - v = (fl_val (v * m) - v * m) / m" using m by (simp add: field_simps)
  then have "\<bar>fl_val (v * m) / m - v\<bar> = \<bar>fl_val (v * m) - v * m\<bar> / m"
    using m by (simp add: abs_divide)
  also have "\<dots> \<le> (\<bar>v * m\<bar> / 2 ^ 53 + 1 / 2 ^ 1075) / m"
    using m fl_val_error [of "v * m"] by (simp add: divide_right_mono)
  also have "\<dots> = \<bar>v\<bar> / 2 ^ 53 + 1 / (2 ^ 1075 * m)"
    using m by (simp add: abs_mult add_divide_distrib)
  also have "1 / (2 ^ 1075 * m) \<le> 1 / 2 ^ 1075"
    using assms by (simp add: field_simps)
  finally show ?thesis by simp
qed

text \<open>Rounding never falls below a power of two the exact value reaches.\<close>

lemma fl_val_ge_pow2:
  assumes k: "power_int 2 k \<le> x" "- 1074 \<le> k"
  shows "power_int 2 k \<le> fl_val x"
proof -
  have x: "0 < x" using k(1) by (rule order.strict_trans2 [rotated]) simp
  define e where "e = bexp x"
  have e: "power_int 2 e \<le> x" "x < power_int 2 (e + 1)" using bexp_bounds [OF x] by (simp_all add: e_def)
  have ke: "k \<le> e"
  proof (rule ccontr)
    assume "\<not> k \<le> e"
    then have "power_int (2 :: real) (e + 1) \<le> power_int 2 k" by (intro power_int_increasing) simp_all
    with k(1) e(2) show False by linarith
  qed
  define q where "q = ulp_exp x"
  have q: "q \<le> e" using ke k(2) x by (simp add: q_def ulp_exp_def e_def)
  have "power_int (2 :: real) e = power_int 2 (e - q) * power_int 2 q" by (simp flip: power_int_add)
  also have "power_int (2 :: real) (e - q) = of_int (2 ^ nat (e - q))" using q by (simp add: power_int_def)
  finally have pe: "power_int (2 :: real) e = of_int (2 ^ nat (e - q)) * power_int 2 q" .
  have "of_int (2 ^ nat (e - q)) \<le> x / power_int 2 q" using e(1) pe by (simp add: field_simps)
  then have "2 ^ nat (e - q) \<le> \<lfloor>x / power_int 2 q\<rfloor>" by (simp add: le_floor_iff)
  moreover have "\<lfloor>y\<rfloor> \<le> round_even y" for y by (simp add: round_even_def Let_def)
  ultimately have "2 ^ nat (e - q) \<le> round_even (x / power_int 2 q)" by (rule order_trans)
  then have "of_int (2 ^ nat (e - q)) * power_int 2 q \<le> of_int (round_even (x / power_int 2 q)) * power_int (2 :: real) q"
    by (intro mult_right_mono) simp_all
  then have "power_int 2 e \<le> fl_val x" using x by (simp add: pe fl_val_def q_def)
  moreover have "power_int (2 :: real) k \<le> power_int 2 e" using ke by (rule power_int_increasing) simp
  ultimately show ?thesis by linarith
qed

text \<open>Rounding commutes with negation (ties to even is symmetric).\<close>

lemma round_even_uminus: "round_even (- y) = - round_even y"
proof -
  define n where "n = \<lfloor>y\<rfloor>"
  have n: "of_int n \<le> y" "y < of_int n + 1" unfolding n_def by linarith+
  show ?thesis
  proof (cases "y = of_int n")
    case True
    then have "\<lfloor>- y\<rfloor> = - n" by simp
    with True show ?thesis by (simp add: round_even_def Let_def n_def)
  next
    case False
    then have m: "\<lfloor>- y\<rfloor> = - n - 1" using n by (intro floor_unique) simp_all
    have f: "- y - of_int (- n - 1) = 1 - (y - of_int n)" by simp
    show ?thesis
      using False n by (simp add: round_even_def Let_def m f flip: n_def)
  qed
qed

lemma fl_val_uminus: "fl_val (- x) = - fl_val x"
  by (simp add: fl_val_def ulp_exp_def round_even_uminus)

lemma fl_uminus: "fl (- x) = f64_neg (fl x)"
  by (auto simp: fl_def Let_def fl_val_uminus f64_neg_def)

lemma f64_neg_neg [simp]: "f64_neg (f64_neg x) = x"
  by (simp add: f64_neg_def split: f64.split)

lemma math_ceil_uminus: "math_ceil (- x) = - math_floor x"
  by (simp add: math_ceil_def math_floor_def ceiling_minus)

text \<open>Values the witnesses and the lemmas below evaluate.\<close>

lemma kelvin_offset64_value: "kelvin_offset64 = 2402652809016115 / 8796093022208"
  by (simp add: kelvin_offset64_def fl_val_def ulp_exp_def bexp_def compute_bitlen round_even_def Let_def)

lemma fl_eval [simp]: "fl_val 50 = 50" "fl_val (1 / 2) = 1 / 2"
  by (simp_all add: fl_val_def ulp_exp_def bexp_def compute_bitlen round_even_def Let_def)

section \<open>The error of \<open>round\<close> on doubles\<close>

lemma error_sum_bound:
  fixes u h :: real
  assumes "0 \<le> u"
  shows "(u + u / 2 ^ 53 + 1 / 2 ^ 1075 + 1 / 2) / 2 ^ 53 + 1 / 2 ^ 1075 + h + (u / 2 ^ 53 + 1 / 2 ^ 1075)
    \<le> h + u / 2 ^ 51 + 1 / 2 ^ 53"
  using assms by (simp add: field_simps)

lemma round64_round_error:
  assumes d: "0 \<le> d" "d \<le> 22" and v: "\<bar>v\<bar> \<le> 2 ^ 900"
  shows "\<exists>r. round64 (Fin v) d ''round'' = Some (Fin r)
    \<and> \<bar>r - v\<bar> \<le> 1 / (2 * 10 ^ nat d) + \<bar>v\<bar> / 2 ^ 51 + 1 / 2 ^ 53"
proof -
  define m :: real where "m = 10 ^ nat d"
  have m1: "1 \<le> m" by (simp add: m_def)
  have "nat d \<le> 22" using d by simp
  then have m22: "m \<le> 10 ^ 22" unfolding m_def by (rule power_increasing) simp
  define p where "p = fl_val (v * m)"
  define N where "N = math_round p"
  define r where "r = fl_val (N / m)"
  have "\<bar>v\<bar> * m \<le> 2 ^ 900 * 10 ^ 22" using v m22 m1 by (intro mult_mono) simp_all
  then have "\<bar>v * m\<bar> \<le> 2 ^ 900 * 10 ^ 22" using m1 by (simp add: abs_mult)
  then have fx: "fl (v * m) = Fin p" unfolding p_def by (intro fl_finite) simp
  have e1: "\<bar>p / m - v\<bar> \<le> \<bar>v\<bar> / 2 ^ 53 + 1 / 2 ^ 1075"
    unfolding p_def using m1 by (rule fl_val_error_div)
  have e2: "\<bar>N / m - p / m\<bar> \<le> 1 / (2 * m)"
  proof -
    have "\<bar>N / m - p / m\<bar> = \<bar>N - p\<bar> / m" using m1 by (simp add: diff_divide_distrib [symmetric] abs_divide)
    also have "\<dots> \<le> (1 / 2) / m"
      using m1 math_round_dist [of p] unfolding N_def by (intro divide_right_mono) simp_all
    finally show ?thesis by simp
  qed
  have hm: "1 / (2 * m) \<le> 1 / 2" using m1 by (simp add: field_simps)
  have Nm: "\<bar>N / m\<bar> \<le> 2 * \<bar>v\<bar> + 1" using e1 e2 hm by (simp add: abs_le_iff) linarith
  moreover have "2 * (2 :: real) ^ 900 + 1 \<le> 2 ^ 1023" by simp
  ultimately have "\<bar>N / m\<bar> \<le> 2 ^ 1023" using v by linarith
  then have fy: "fl (N / m) = Fin r" unfolding r_def by (rule fl_finite)
  have e3: "\<bar>r - N / m\<bar> \<le> \<bar>N / m\<bar> / 2 ^ 53 + 1 / 2 ^ 1075"
    unfolding r_def by (rule fl_val_error)
  have Nm': "\<bar>N / m\<bar> \<le> \<bar>v\<bar> + \<bar>v\<bar> / 2 ^ 53 + 1 / 2 ^ 1075 + 1 / 2"
    using e1 e2 hm by (simp only: abs_le_iff) (auto; linarith)
  have e3': "\<bar>r - N / m\<bar> \<le> (\<bar>v\<bar> + \<bar>v\<bar> / 2 ^ 53 + 1 / 2 ^ 1075 + 1 / 2) / 2 ^ 53 + 1 / 2 ^ 1075"
    using e3 Nm' by (meson add_right_mono divide_right_mono order_trans zero_le_numeral zero_le_power)
  have "\<bar>r - v\<bar> \<le> \<bar>r - N / m\<bar> + \<bar>N / m - p / m\<bar> + \<bar>p / m - v\<bar>"
    using abs_triangle_ineq [of "r - N / m" "N / m - v"] abs_triangle_ineq [of "N / m - p / m" "p / m - v"]
    by simp
  also have "\<dots> \<le> (\<bar>v\<bar> + \<bar>v\<bar> / 2 ^ 53 + 1 / 2 ^ 1075 + 1 / 2) / 2 ^ 53 + 1 / 2 ^ 1075
      + 1 / (2 * m) + (\<bar>v\<bar> / 2 ^ 53 + 1 / 2 ^ 1075)"
    using e1 e2 e3' by linarith
  also have "\<dots> \<le> 1 / (2 * m) + \<bar>v\<bar> / 2 ^ 51 + 1 / 2 ^ 53"
    by (rule error_sum_bound) simp
  finally have "\<bar>r - v\<bar> \<le> 1 / (2 * m) + \<bar>v\<bar> / 2 ^ 51 + 1 / 2 ^ 53" .
  moreover have "round64 (Fin v) d ''round'' = Some (Fin r)"
    using d fx fy by (simp add: round64_def pow10_64_def m_def N_def)
  ultimately show ?thesis by (auto simp: m_def)
qed

section \<open>Properties of the binary64 arithmetic\<close>

text \<open>C7: for every reading \<open>T\<close> of magnitude up to \<open>2^16\<close> Kelvin, the value lines 77--79 compute in binary64, \<open>round(T - 273.15, 2, "round")\<close>, is finite and within half a hundredth of a degree, plus \<open>2^-32\<close>, of the exact Celsius value \<open>T - 273.15\<close>; the extra term is needed, since \<open>T = 273.155\<close> gives 0.00.\<close>

lemma celsius64_error:
  assumes T: "\<bar>T\<bar> \<le> 2 ^ 16"
  shows "\<exists>c. celsius64 T = Some (Fin c) \<and> \<bar>c - (T - 27315 / 100)\<bar> \<le> 1 / 200 + 1 / 2 ^ 32"
proof -
  define k where "k = kelvin_offset64"
  have k: "\<bar>k - 27315 / 100\<bar> \<le> 1 / 2 ^ 40" by (simp add: k_def kelvin_offset64_value)
  have k274: "\<bar>k\<bar> \<le> 274" by (simp add: k_def kelvin_offset64_value)
  define t where "t = fl_val (T - k)"
  have x: "\<bar>T - k\<bar> \<le> 2 ^ 17" using T k274 by (simp only: abs_le_iff) (auto; linarith)
  then have ft: "fl (T - k) = Fin t" unfolding t_def by (intro fl_finite) simp
  have et: "\<bar>t - (T - k)\<bar> \<le> \<bar>T - k\<bar> / 2 ^ 53 + 1 / 2 ^ 1075"
    unfolding t_def by (rule fl_val_error)
  also have "\<bar>T - k\<bar> / 2 ^ 53 + 1 / 2 ^ 1075 \<le> 2 ^ 17 / 2 ^ 53 + 1 / 2 ^ 1075"
    using x by (simp add: divide_right_mono)
  also have "(2 :: real) ^ 17 / 2 ^ 53 + 1 / 2 ^ 1075 \<le> 1 / 2 ^ 35" by simp
  finally have et': "\<bar>t - (T - k)\<bar> \<le> 1 / 2 ^ 35" .
  have t17: "\<bar>t\<bar> \<le> 2 ^ 17 + 1" using x et' by (simp only: abs_le_iff) (auto; linarith)
  then have "\<bar>t\<bar> \<le> 2 ^ 900" by simp
  from round64_round_error [of 2 t, OF _ _ this] obtain r where
    r: "round64 (Fin t) 2 ''round'' = Some (Fin r)"
      "\<bar>r - t\<bar> \<le> 1 / (2 * 10 ^ nat 2) + \<bar>t\<bar> / 2 ^ 51 + 1 / 2 ^ 53"
    by auto
  have "\<bar>t\<bar> / 2 ^ 51 \<le> (2 ^ 17 + 1) / 2 ^ 51" using t17 by (simp add: divide_right_mono)
  then have "\<bar>r - t\<bar> \<le> 1 / 200 + (2 ^ 17 + 1) / 2 ^ 51 + 1 / 2 ^ 53" using r(2) by simp
  also have "(1 :: real) / 200 + (2 ^ 17 + 1) / 2 ^ 51 + 1 / 2 ^ 53 \<le> 1 / 200 + 1 / 2 ^ 33" by simp
  finally have "\<bar>r - t\<bar> \<le> 1 / 200 + 1 / 2 ^ 33" .
  then have "\<bar>r - (T - 27315 / 100)\<bar> \<le> 1 / 200 + 1 / 2 ^ 32"
    using et' k by (simp only: abs_le_iff) (auto; linarith)
  moreover have "celsius64 T = Some (Fin r)" using ft r(1) by (simp add: celsius64_def k_def)
  ultimately show ?thesis by blast
qed

text \<open>C12: in the \<open>"round"\<close> mode and for \<open>0 \<le> decimals \<le> 22\<close>, \<open>round\<close> on doubles returns a finite value within half a unit of the last kept decimal of its input, plus the rounding error of binary64 (\<open>|v| / 2^51 + 2^-53\<close>), for every input up to \<open>2^900\<close> in magnitude.\<close>

lemma round64_error_bound:
  "0 \<le> d \<Longrightarrow> d \<le> 22 \<Longrightarrow> \<bar>v\<bar> \<le> 2 ^ 900 \<Longrightarrow>
   \<exists>r. round64 (Fin v) d ''round'' = Some (Fin r)
     \<and> \<bar>r - v\<bar> \<le> 1 / (2 * 10 ^ nat d) + \<bar>v\<bar> / 2 ^ 51 + 1 / 2 ^ 53"
  by (rule round64_round_error)


text \<open>C24: on doubles too, rounding to nearest is symmetric about zero, and \<open>"ceil"\<close> of a negated value is the negated \<open>"floor"\<close>.\<close>

lemma round64_uminus:
  "round64 (f64_neg x) d ''round'' = map_option f64_neg (round64 x d ''round'')
   \<and> round64 (f64_neg x) d ''ceil'' = map_option f64_neg (round64 x d ''floor'')"
proof (cases "pow10_64 d")
  case (Some m)
  show ?thesis
  proof (cases x)
    case (Fin v)
    then show ?thesis
      using Some fl_uminus [of "v * m"]
      by (cases "fl (v * m)")
         (simp_all add: round64_def f64_neg_def fl_uminus math_round_uminus math_ceil_uminus)
  qed (simp_all add: round64_def f64_neg_def Some)
qed (simp add: round64_def)

text \<open>C25: \<open>val*mult\<close> overflows before anything is rounded: when \<open>val * 10^decimals\<close> reaches \<open>2^1024\<close> (from about \<open>1.8e306\<close> with two decimals), \<open>round\<close> returns \<open>+Inf\<close> in every mode.\<close>

lemma round64_overflow:
  "0 \<le> d \<Longrightarrow> d \<le> 22 \<Longrightarrow> 2 ^ 1024 \<le> v * 10 ^ nat d \<Longrightarrow> round64 (Fin v) d mode = Some Pos_Inf"
proof -
  assume d: "0 \<le> d" "d \<le> 22" and v: "2 ^ 1024 \<le> v * 10 ^ nat d"
  have "power_int 2 1024 \<le> v * 10 ^ nat d" using v by simp
  then have "power_int 2 1024 \<le> fl_val (v * 10 ^ nat d)" by (rule fl_val_ge_pow2) simp
  then have "fl (v * 10 ^ nat d) = Pos_Inf" by (simp add: fl_def Let_def)
  then show ?thesis using d by (simp add: round64_def pow10_64_def)
qed

section \<open>Where binary64 and the decimal reading differ\<close>

text \<open>
  The JSON reading \<open>273.155\<close> K is the double nearest to it; subtracting the double
  \<open>273.15\<close> gives \<open>0.0049999999999954525\<close>, logged as \<open>0\<close>, where the decimal
  computation gives \<open>0.01\<close>.
\<close>

lemma celsius64_273_155:
  "celsius64 (fl_val (273155 / 1000)) = Some (Fin 0)
   \<and> round_go (273155 / 1000 - 27315 / 100) 2 ''round'' = 1 / 100"
  by (simp add: celsius64_def kelvin_offset64_value round64_def pow10_64_def fl_def fl_val_def
      ulp_exp_def bexp_def compute_bitlen round_even_def Let_def math_round_def round_go_def go_pow10_def)

text \<open>\<open>round(1.005, 2, "round")\<close> is \<open>1\<close>: \<open>1.005 * 100\<close> is \<open>100.49999999999999\<close> in binary64.\<close>

lemma round64_1_005:
  "round64 (fl (1005 / 1000)) 2 ''round'' = Some (Fin 1)
   \<and> round_go (1005 / 1000) 2 ''round'' = 101 / 100"
  by (simp add: round64_def pow10_64_def fl_def fl_val_def
      ulp_exp_def bexp_def compute_bitlen round_even_def Let_def math_round_def round_go_def go_pow10_def)

text \<open>Rounding again is not idempotent: \<open>0.29\<close> rounds to itself, and its \<open>"floor"\<close> is \<open>0.28\<close>, since \<open>0.29 * 100\<close> is \<open>28.999999999999996\<close>.\<close>

lemma round64_0_29_floor:
  "round64 (fl (29 / 100)) 2 ''round'' = Some (fl (29 / 100))
   \<and> round64 (fl (29 / 100)) 2 ''floor'' = Some (fl (28 / 100))"
  by (simp add: round64_def pow10_64_def fl_def fl_val_def
      ulp_exp_def bexp_def compute_bitlen round_even_def Let_def math_round_def math_floor_def)

section \<open>Witnesses\<close>

text \<open>The reading \<open>273.155\<close> K of \<open>celsius64_273_155\<close> is within the bound.\<close>

lemma celsius64_error_witness:
  "\<exists>c. celsius64 (1201348394740613 / 4398046511104) = Some (Fin c)
     \<and> \<bar>c - (1201348394740613 / 4398046511104 - 27315 / 100)\<bar> \<le> 1 / 200 + 1 / 2 ^ 32"
  using celsius64_error [of "1201348394740613 / 4398046511104"] by simp

text \<open>\<open>0.125\<close> rounds to the double nearest \<open>0.13\<close>, \<open>0.0050000000000000044\<close> away.\<close>

lemma round64_error_bound_witness:
  "\<exists>r. round64 (Fin (1 / 8)) 2 ''round'' = Some (Fin r)
     \<and> \<bar>r - 1 / 8\<bar> \<le> 1 / (2 * 10 ^ nat 2) + \<bar>1 / 8 :: real\<bar> / 2 ^ 51 + 1 / 2 ^ 53"
  using round64_error_bound [of 2 "1 / 8"] by simp


lemma round64_overflow_witness: "round64 (Fin (10 ^ 307)) 2 ''floor'' = Some Pos_Inf"
  using round64_overflow [of 2 "10 ^ 307" "''floor''"] by simp

end
