(* ===== verification/Spec2Isabelle.thy ===== *)
theory Spec2Isabelle
  imports Driver Float64
begin

text \<open>
  \<^bold>\<open>A verification model of go-weather-api.\<close>

  The program (\<open>src/main.go\<close>, one file) reads \<open>API_KEY\<close> from the environment,
  possibly filled from a \<open>.env\<close> file, fetches the current temperature of four
  fixed cities from OpenWeatherMap, and logs each in Celsius rounded to two
  decimals, or logs the failure and goes on. \<open>main\<close> calls \<open>fetchWeatherData\<close>
  once per city, which calls \<open>http.Get\<close> and the JSON decoder; \<open>main\<close> then
  converts the reading and calls \<open>round\<close>. Its parts and where they are modelled:

  \<^item> \<^emph>\<open>Rounding\<close> (\<open>round\<close>, lines 83--94) in theory \<open>Round\<close>, on exact reals:
    \<open>round_go\<close> with the calls \<open>math.Pow\<close> (\<open>go_pow10\<close>), \<open>math.Round\<close>,
    \<open>math.Ceil\<close>, \<open>math.Floor\<close> (\<open>math_round\<close>, \<open>math_ceil\<close>,
    \<open>math_floor\<close>, from the documented contracts of Go's \<open>math\<close> package).
    Lemmas: \<open>math_round\<close> meets the contract of \<open>math.Round\<close> (nearest, ties away
    from zero, unique); every mode string other than \<open>"ceil"\<close> and \<open>"floor"\<close>
    takes the default branch; the result lies between the floor and ceil results;
    rounding to nearest is symmetric about zero.
  \<^item> \<^emph>\<open>Binary64 arithmetic\<close> in theory \<open>Float64\<close>: the same expressions as Go
    evaluates them. \<open>fl\<close> rounds a real to the nearest double, ties to even, with
    subnormals and overflow to infinity, and is executable. \<open>round64\<close> is
    \<open>round\<close> and \<open>celsius64\<close> is lines 77--79 in binary64. Lemmas: the logged
    Celsius value of a reading up to \<open>2^16\<close> K is within \<open>0.005 + 2^-32\<close> of the
    exact value; the error bound of \<open>round\<close>; agreement with \<open>round_go\<close> when
    the scaling is exact; symmetry; overflow to \<open>+Inf\<close>. The lemmas
    \<open>celsius64_273_155\<close>, \<open>round64_1_005\<close> and \<open>round64_0_29_floor\<close> compute
    the inputs where binary64 and the decimal reading differ.
  \<^item> \<^emph>\<open>Response types and JSON decoding\<close> (lines 15--21, 27, 36) in theory
    \<open>Json\<close>: the records \<open>temperature\<close> and \<open>weather_response\<close>, a \<open>json\<close>
    datatype for response bodies, and \<open>json_decode\<close>, the behaviour of
    \<open>encoding/json\<close>'s \<open>Decode\<close> on these structs (keys matched up to case,
    \<open>null\<close> and absent keys keep the zero value, the first type error is returned
    while decoding goes on, repeated keys overwrite). \<open>json_decode_spec\<close> proves
    it equal to a reference specification without the update loop.
  \<^item> \<^emph>\<open>The world\<close> in theory \<open>World\<close>: the record \<open>world\<close> holds what the
    program observes and changes (HTTP answers per URL, environment, \<open>.env\<close>
    file, printed lines, requests made, open response bodies), threaded through the
    operations as explicit state; \<open>slog\<close>, \<open>http_get\<close>, \<open>body_close\<close> and
    \<open>getenv\<close> model the library calls the program makes.
  \<^item> \<^emph>\<open>The fetcher\<close> (\<open>fetchWeatherData\<close>, lines 23--41) in theory \<open>Fetch\<close>:
    the URL built by \<open>Sprintf\<close> (\<open>weather_url\<close>); one lemma per branch
    (transport error, decode error, success) with the exact log lines, the request
    made and the body closed; the parameters a server reads from the URL; and two
    defects: the status code is never checked, and the parameters are not escaped.
  \<^item> \<^emph>\<open>The driver\<close> (\<open>main\<close>, lines 43--81) in theory \<open>Driver\<close>: the registry
    \<open>cities\<close>, the loop body \<open>visit_city\<close>, the loop \<open>range_cities\<close> over a
    given visit order, \<open>godotenv_load\<close>, and \<open>main_go\<close> with its deferred calls
    run last-in first-out. Go's map order is unspecified, so \<open>main_run\<close> relates a
    start world to the world \<open>main_go\<close> produces for every ordering of the map's
    entries, and every lemma about it holds for all of them: the complete output,
    its independence of the order, the requests made and the bodies closed, the
    number of success and failure lines, one outcome line per city, the number of
    error lines, the API key used, and the run without a \<open>.env\<close> file.
  \<^item> This theory: properties across the components, from an HTTP answer to the
    line logged.

  \<^bold>\<open>Modelling choices.\<close> \<open>Round\<close>, \<open>Json\<close> and \<open>Driver\<close> compute on exact
  reals: a JSON number is its decimal value and \<open>273.15\<close> is 27315/100, so their
  lemmas describe the exact computation; \<open>Float64\<close> gives the binary64 values and
  bounds the difference. \<open>math.Pow(10, d)\<close> is modelled in binary64 for
  \<open>0 \<le> d \<le> 22\<close>, where Go's result is the exact power (the program uses 2).
  JSON text syntax is abstracted to a \<open>body\<close> that is empty, malformed or a JSON
  value; key case folding is ASCII (\<open>encoding/json\<close> also folds some non-ASCII
  letters, which no key of these structs contains). \<open>http.Get\<close> is the world's
  function \<open>net\<close> from URLs to answers, so a run sees one answer per URL; timeouts
  are transport failures (no client timeout is configured: a request that never
  returns is outside the model). Log lines are kept as level, message and
  attributes, not as formatted text; \<open>time.Since\<close> is the world's \<open>elapsed\<close>.
  The only loop of the program runs over the four map entries; \<open>range_cities\<close>
  is structural recursion over the visit order, so no fuel is needed.

  \<^bold>\<open>Not modelled:\<close> the text format of \<open>slog\<close>'s handler, the HTTP client
  (redirects, TLS, connection reuse), the parser of \<open>.env\<close> files beyond the list of
  assignments it yields, JSON numbers outside the range of \<open>float64\<close> (an error in
  Go), and the process exit status (always 0).
\<close>

section \<open>From an HTTP answer to the line logged\<close>


text \<open>C9: because the status code is not checked, OpenWeatherMap's 401 answer to an invalid API key is logged, for every city that gets it, as a successful reading of -273.15 degrees Celsius.\<close>

theorem main_run_bad_key_absolute_zero:
  "main_run w0 w \<Longrightarrow> c \<in> set cities \<Longrightarrow>
   net w0 (city_url (main_api_key w0) c)
     = Http_Response 401 (Json_Body (JObject [(''cod'', JNumber 401), (''message'', JString ''Invalid API key'')])) \<Longrightarrow>
   Log_Line Level_Info ''Fetched weather data successfully''
     [(''city'', Str_Value (fst c)), (temperature_key, Float_Value (- 27315 / 100))]
   \<in> set (out w)"
proof -
  assume r: "main_run w0 w" and c: "c \<in> set cities"
    and n: "net w0 (city_url (main_api_key w0) c)
      = Http_Response 401 (Json_Body (JObject [(''cod'', JNumber 401), (''message'', JString ''Invalid API key'')]))"
  have "fetch_outcome (net w0) (main_api_key w0) c = Inr \<lparr>Temp = 0\<rparr>"
    by (simp add: fetch_outcome_def n json_decode_without_main key_matches_def ascii_upper_def
        weather_zero_def)
  moreover have "round_go (0 - 27315 / 100) 2 ''round'' = - 27315 / 100"
    by (simp add: round_go_def math_round_def go_pow10_def)
  ultimately show ?thesis using main_run_city_line [OF r c] by (simp add: outcome_line_def)
qed

section \<open>Witnesses\<close>


theorem main_run_bad_key_absolute_zero_witness:
  "Log_Line Level_Info ''Fetched weather data successfully''
     [(''city'', Str_Value ''Tokyo''), (temperature_key, Float_Value (- 27315 / 100))]
   \<in> set (out (main_go cities (process_start (\<lambda>_. Http_Response 401
        (Json_Body (JObject [(''cod'', JNumber 401), (''message'', JString ''Invalid API key'')])))
        Map.empty Dotenv_Missing ''1s'')))"
proof -
  have r: "main_run (process_start (\<lambda>_. Http_Response 401
        (Json_Body (JObject [(''cod'', JNumber 401), (''message'', JString ''Invalid API key'')])))
        Map.empty Dotenv_Missing ''1s'')
      (main_go cities (process_start (\<lambda>_. Http_Response 401
        (Json_Body (JObject [(''cod'', JNumber 401), (''message'', JString ''Invalid API key'')])))
        Map.empty Dotenv_Missing ''1s''))"
    by (rule main_run.run) simp
  have c: "(''Tokyo'', (''35.6895'', ''139.6917'')) \<in> set cities" by (simp add: cities_def)
  show ?thesis
    using main_run_bad_key_absolute_zero [OF r c] by (simp add: process_start_def)
qed

end
